theory Spec2Isabelle
  imports Complex_Main
begin

section \<open>JSON texts as the Go decoder reads them\<close>

text \<open>
  The program hands its input bytes to \<^verbatim>\<open>json.Unmarshal\<close>. That function first
  validates the whole text with the scanner of \<^verbatim>\<open>encoding/json\<close> and only then
  stores values. The scanner is modelled as a lexer that consumes one byte per step and a
  stack machine over the tokens; both are structurally recursive, hence total.
  A byte string is a \<^typ>\<open>string\<close>.
\<close>

datatype json =
    JNull
  | JBool bool
  | JNum string  \<comment> \<open>the literal, as written\<close>
  | JStr string  \<comment> \<open>the unquoted contents\<close>
  | JArr "json list"
  | JObj "(string \<times> json) list"  \<comment> \<open>members in input order, duplicates kept\<close>

datatype token =
    TLBrace | TRBrace | TLBracket | TRBracket | TComma | TColon
  | TString string | TNumber string | TTrue | TFalse | TNull

definition BS :: char where
  "BS = CHR 0x5C"

definition DQ :: char where
  "DQ = CHR 0x22"

definition isSpace :: "char \<Rightarrow> bool" where
  "isSpace c \<longleftrightarrow> c = CHR '' '' \<or> c = CHR 0x09 \<or> c = CHR 0x0D \<or> c = CHR 0x0A"

definition isDigit :: "char \<Rightarrow> bool" where
  "isDigit c \<longleftrightarrow> (48::nat) \<le> of_char c \<and> of_char c \<le> (57::nat)"

definition isHex :: "char \<Rightarrow> bool" where
  "isHex c \<longleftrightarrow> isDigit c
     \<or> ((97::nat) \<le> of_char c \<and> of_char c \<le> (102::nat))
     \<or> ((65::nat) \<le> of_char c \<and> of_char c \<le> (70::nat))"

definition hexval :: "char \<Rightarrow> nat" where
  "hexval c = (if isDigit c then of_char c - 48
               else if (97::nat) \<le> of_char c then of_char c - 87
               else of_char c - 55)"

subsection \<open>Unquoting a string literal\<close>

text \<open>\<^verbatim>\<open>utf8.EncodeRune\<close> for a code point that is not a surrogate.\<close>

definition utf8_encode :: "nat \<Rightarrow> string" where
  "utf8_encode n =
     (if n < 0x80 then [char_of n]
      else if n < 0x800 then [char_of (0xC0 + n div 64), char_of (0x80 + n mod 64)]
      else if n < 0x10000 then
        [char_of (0xE0 + n div 4096), char_of (0x80 + (n div 64) mod 64),
         char_of (0x80 + n mod 64)]
      else
        [char_of (0xF0 + n div 262144), char_of (0x80 + (n div 4096) mod 64),
         char_of (0x80 + (n div 64) mod 64), char_of (0x80 + n mod 64)])"

definition isCont :: "char \<Rightarrow> bool" where
  "isCont c \<longleftrightarrow> (0x80::nat) \<le> of_char c \<and> of_char c \<le> (0xBF::nat)"

text \<open>
  The width of the well-formed UTF-8 sequence at the head of the bytes, 0 when the head is
  not one (\<^verbatim>\<open>utf8.DecodeRune\<close> then yields \<^verbatim>\<open>RuneError\<close> of width 1).
\<close>

definition utf8_width :: "string \<Rightarrow> nat" where
  "utf8_width s =
     (case s of
        [] \<Rightarrow> 0
      | c # r \<Rightarrow>
         (let b = (of_char c :: nat);
              b1 = (case r of [] \<Rightarrow> 0 | x # _ \<Rightarrow> (of_char x :: nat));
              c2 = (case r of _ # x # _ \<Rightarrow> isCont x | _ \<Rightarrow> False);
              c3 = (case r of _ # _ # x # _ \<Rightarrow> isCont x | _ \<Rightarrow> False)
          in if b < 0x80 then 1
             else if 0xC2 \<le> b \<and> b \<le> 0xDF then (if 0x80 \<le> b1 \<and> b1 \<le> 0xBF then 2 else 0)
             else if b = 0xE0 then (if 0xA0 \<le> b1 \<and> b1 \<le> 0xBF \<and> c2 then 3 else 0)
             else if b = 0xED then (if 0x80 \<le> b1 \<and> b1 \<le> 0x9F \<and> c2 then 3 else 0)
             else if 0xE1 \<le> b \<and> b \<le> 0xEF then (if 0x80 \<le> b1 \<and> b1 \<le> 0xBF \<and> c2 then 3 else 0)
             else if b = 0xF0 then (if 0x90 \<le> b1 \<and> b1 \<le> 0xBF \<and> c2 \<and> c3 then 4 else 0)
             else if 0xF1 \<le> b \<and> b \<le> 0xF3 then (if 0x80 \<le> b1 \<and> b1 \<le> 0xBF \<and> c2 \<and> c3 then 4 else 0)
             else if b = 0xF4 then (if 0x80 \<le> b1 \<and> b1 \<le> 0x8F \<and> c2 \<and> c3 then 4 else 0)
             else 0))"

definition hex4 :: "string \<Rightarrow> nat" where
  "hex4 s = foldl (\<lambda>n c. 16 * n + hexval c) 0 (take 4 s)"

text \<open>\<^verbatim>\<open>getu4\<close>: the code unit of a leading \<^verbatim>\<open>\uXXXX\<close>, if there is one.\<close>

definition getu4 :: "string \<Rightarrow> nat option" where
  "getu4 s =
     (case s of
        a # b # r \<Rightarrow>
          if a = BS \<and> b = CHR ''u'' \<and> 4 \<le> length r \<and> list_all isHex (take 4 r)
          then Some (hex4 r) else None
      | _ \<Rightarrow> None)"

definition isSurrogate :: "nat \<Rightarrow> bool" where
  "isSurrogate r \<longleftrightarrow> 0xD800 \<le> r \<and> r < 0xE000"

definition unescape :: "char \<Rightarrow> char" where
  "unescape c =
     (if c = CHR ''b'' then CHR 0x08 else if c = CHR ''f'' then CHR 0x0C
      else if c = CHR ''n'' then CHR 0x0A else if c = CHR ''r'' then CHR 0x0D
      else if c = CHR ''t'' then CHR 0x09 else c)"

text \<open>
  \<^verbatim>\<open>unquoteBytes\<close>, on the contents of a literal that the scanner has accepted: escapes
  are replaced, a surrogate pair becomes one code point, a lone surrogate and every
  ill-formed byte become U+FFFD.
\<close>

fun unquote :: "string \<Rightarrow> string" where
  "unquote [] = []"
| "unquote (c # cs) =
     (if c = BS then
        (case cs of
           [] \<Rightarrow> []
         | e # r \<Rightarrow>
            if e = CHR ''u'' then
              (let rr = hex4 r in
               if isSurrogate rr then
                 (case getu4 (drop 4 r) of
                    Some rr1 \<Rightarrow>
                      if rr < 0xDC00 \<and> 0xDC00 \<le> rr1 \<and> rr1 < 0xE000
                      then utf8_encode ((rr - 0xD800) * 1024 + (rr1 - 0xDC00) + 0x10000)
                             @ unquote (drop 10 r)
                      else utf8_encode 0xFFFD @ unquote (drop 4 r)
                  | None \<Rightarrow> utf8_encode 0xFFFD @ unquote (drop 4 r))
               else utf8_encode rr @ unquote (drop 4 r))
            else unescape e # unquote r)
      else if (of_char c :: nat) < 0x80 then c # unquote cs
      else if utf8_width (c # cs) = 0 then utf8_encode 0xFFFD @ unquote cs
      else c # take (utf8_width (c # cs) - 1) cs @ unquote (drop (utf8_width (c # cs) - 1) cs))"

subsection \<open>The lexer\<close>

text \<open>The states of the scanner inside a number (\<^verbatim>\<open>stateNeg\<close>, \<^verbatim>\<open>state0\<close>, ...).\<close>

datatype numst = Neg | N0 | N1 | Dot | Dot0 | Exp | ExpSign | Exp0

definition num_step :: "numst \<Rightarrow> char \<Rightarrow> numst option" where
  "num_step st c =
     (let e = (c = CHR ''e'' \<or> c = CHR ''E'') in
      case st of
        Neg \<Rightarrow> if c = CHR ''0'' then Some N0 else if isDigit c then Some N1 else None
      | N0 \<Rightarrow> if c = CHR ''.'' then Some Dot else if e then Some Exp else None
      | N1 \<Rightarrow> if isDigit c then Some N1 else if c = CHR ''.'' then Some Dot
               else if e then Some Exp else None
      | Dot \<Rightarrow> if isDigit c then Some Dot0 else None
      | Dot0 \<Rightarrow> if isDigit c then Some Dot0 else if e then Some Exp else None
      | Exp \<Rightarrow> if c = CHR ''+'' \<or> c = CHR ''-'' then Some ExpSign
                else if isDigit c then Some Exp0 else None
      | ExpSign \<Rightarrow> if isDigit c then Some Exp0 else None
      | Exp0 \<Rightarrow> if isDigit c then Some Exp0 else None)"

definition num_final :: "numst \<Rightarrow> bool" where
  "num_final st \<longleftrightarrow> st = N0 \<or> st = N1 \<or> st = Dot0 \<or> st = Exp0"

datatype lmode =
    LTop
  | LStr string  \<comment> \<open>inside a string; the raw contents so far\<close>
  | LEsc string  \<comment> \<open>after a backslash\<close>
  | LHex nat string  \<comment> \<open>inside \<^verbatim>\<open>\u\<close>, with the number of hex digits read\<close>
  | LNum numst string
  | LLit token string  \<comment> \<open>inside true, false or null; the bytes still expected\<close>

text \<open>What a byte does between tokens: the token it completes, if any, and the next mode.\<close>

definition top_step :: "char \<Rightarrow> (token option \<times> lmode) option" where
  "top_step c =
     (if isSpace c then Some (None, LTop)
      else if c = CHR ''{'' then Some (Some TLBrace, LTop)
      else if c = CHR ''}'' then Some (Some TRBrace, LTop)
      else if c = CHR ''['' then Some (Some TLBracket, LTop)
      else if c = CHR '']'' then Some (Some TRBracket, LTop)
      else if c = CHR '','' then Some (Some TComma, LTop)
      else if c = CHR '':'' then Some (Some TColon, LTop)
      else if c = DQ then Some (None, LStr [])
      else if c = CHR ''-'' then Some (None, LNum Neg [c])
      else if c = CHR ''0'' then Some (None, LNum N0 [c])
      else if isDigit c then Some (None, LNum N1 [c])
      else if c = CHR ''t'' then Some (None, LLit TTrue ''rue'')
      else if c = CHR ''f'' then Some (None, LLit TFalse ''alse'')
      else if c = CHR ''n'' then Some (None, LLit TNull ''ull'')
      else None)"

definition emit :: "token option \<Rightarrow> token list option \<Rightarrow> token list option" where
  "emit t r = (case t of None \<Rightarrow> r | Some x \<Rightarrow> map_option ((#) x) r)"

fun lex :: "lmode \<Rightarrow> string \<Rightarrow> token list option" where
  "lex m [] =
     (case m of
        LTop \<Rightarrow> Some []
      | LNum st acc \<Rightarrow> if num_final st then Some [TNumber acc] else None
      | _ \<Rightarrow> None)"
| "lex LTop (c # cs) =
     (case top_step c of None \<Rightarrow> None | Some (t, m) \<Rightarrow> emit t (lex m cs))"
| "lex (LStr raw) (c # cs) =
     (if c = DQ then emit (Some (TString (unquote raw))) (lex LTop cs)
      else if c = BS then lex (LEsc raw) cs
      else if (of_char c :: nat) < 0x20 then None
      else lex (LStr (raw @ [c])) cs)"
| "lex (LEsc raw) (c # cs) =
     (if c = CHR ''u'' then lex (LHex 0 (raw @ [BS, c])) cs
      else if c \<in> set ''bfnrt/'' \<or> c = BS \<or> c = DQ then lex (LStr (raw @ [BS, c])) cs
      else None)"
| "lex (LHex n raw) (c # cs) =
     (if isHex c then (if n = 3 then lex (LStr (raw @ [c])) cs else lex (LHex (n + 1) (raw @ [c])) cs)
      else None)"
| "lex (LNum st acc) (c # cs) =
     (case num_step st c of
        Some st' \<Rightarrow> lex (LNum st' (acc @ [c])) cs
      | None \<Rightarrow>
          if num_final st then
            (case top_step c of
               None \<Rightarrow> None
             | Some (t, m) \<Rightarrow> emit (Some (TNumber acc)) (emit t (lex m cs)))
          else None)"
| "lex (LLit tok expected) (c # cs) =
     (case expected of
        [] \<Rightarrow> None
      | e # es \<Rightarrow>
          if c = e then (if es = [] then emit (Some tok) (lex LTop cs) else lex (LLit tok es) cs)
          else None)"

subsection \<open>The grammar\<close>

datatype frame =
    FArr "json list"  \<comment> \<open>an open array and its elements so far\<close>
  | FObj "(string \<times> json) list"  \<comment> \<open>an open object, before a key\<close>
  | FKey "(string \<times> json) list" string  \<comment> \<open>an open object, after a key and its colon\<close>

datatype expect =
    EValue  \<comment> \<open>\<^verbatim>\<open>stateBeginValue\<close>\<close>
  | EValueOrClose  \<comment> \<open>\<^verbatim>\<open>stateBeginValueOrEmpty\<close>, after an opening bracket\<close>
  | EKeyOrClose  \<comment> \<open>\<^verbatim>\<open>stateBeginStringOrEmpty\<close>, after an opening brace\<close>
  | EKey  \<comment> \<open>\<^verbatim>\<open>stateBeginString\<close>, after a comma in an object\<close>
  | EColon string  \<comment> \<open>after a key\<close>
  | EAfter  \<comment> \<open>\<^verbatim>\<open>stateEndValue\<close> inside an array or object\<close>
  | EDone json  \<comment> \<open>\<^verbatim>\<open>stateEndTop\<close>\<close>

definition maxNestingDepth :: nat where
  "maxNestingDepth = 10000"

definition deliver :: "json \<Rightarrow> frame list \<Rightarrow> (expect \<times> frame list) option" where
  "deliver v st =
     (case st of
        [] \<Rightarrow> Some (EDone v, [])
      | FArr vs # st' \<Rightarrow> Some (EAfter, FArr (vs @ [v]) # st')
      | FKey ms k # st' \<Rightarrow> Some (EAfter, FObj (ms @ [(k, v)]) # st')
      | FObj ms # st' \<Rightarrow> None)"

definition begin_value :: "token \<Rightarrow> frame list \<Rightarrow> (expect \<times> frame list) option" where
  "begin_value t st =
     (case t of
        TLBracket \<Rightarrow> if maxNestingDepth \<le> length st then None else Some (EValueOrClose, FArr [] # st)
      | TLBrace \<Rightarrow> if maxNestingDepth \<le> length st then None else Some (EKeyOrClose, FObj [] # st)
      | TString s \<Rightarrow> deliver (JStr s) st
      | TNumber s \<Rightarrow> deliver (JNum s) st
      | TTrue \<Rightarrow> deliver (JBool True) st
      | TFalse \<Rightarrow> deliver (JBool False) st
      | TNull \<Rightarrow> deliver JNull st
      | _ \<Rightarrow> None)"

definition close_array :: "frame list \<Rightarrow> (expect \<times> frame list) option" where
  "close_array st = (case st of FArr vs # st' \<Rightarrow> deliver (JArr vs) st' | _ \<Rightarrow> None)"

definition close_object :: "frame list \<Rightarrow> (expect \<times> frame list) option" where
  "close_object st = (case st of FObj ms # st' \<Rightarrow> deliver (JObj ms) st' | _ \<Rightarrow> None)"

definition step :: "expect \<Rightarrow> frame list \<Rightarrow> token \<Rightarrow> (expect \<times> frame list) option" where
  "step e st t =
     (case e of
        EValue \<Rightarrow> begin_value t st
      | EValueOrClose \<Rightarrow> if t = TRBracket then close_array st else begin_value t st
      | EKeyOrClose \<Rightarrow>
          (case t of TRBrace \<Rightarrow> close_object st | TString k \<Rightarrow> Some (EColon k, st) | _ \<Rightarrow> None)
      | EKey \<Rightarrow> (case t of TString k \<Rightarrow> Some (EColon k, st) | _ \<Rightarrow> None)
      | EColon k \<Rightarrow>
          (case (t, st) of (TColon, FObj ms # st') \<Rightarrow> Some (EValue, FKey ms k # st') | _ \<Rightarrow> None)
      | EAfter \<Rightarrow>
          (case (t, st) of
             (TComma, FArr vs # st') \<Rightarrow> Some (EValue, st)
           | (TComma, FObj ms # st') \<Rightarrow> Some (EKey, st)
           | (TRBracket, _) \<Rightarrow> close_array st
           | (TRBrace, _) \<Rightarrow> close_object st
           | _ \<Rightarrow> None)
      | EDone v \<Rightarrow> None)"

fun run :: "expect \<times> frame list \<Rightarrow> token list \<Rightarrow> json option" where
  "run (e, st) [] = (case e of EDone v \<Rightarrow> Some v | _ \<Rightarrow> None)"
| "run (e, st) (t # ts) = (case step e st t of None \<Rightarrow> None | Some c \<Rightarrow> run c ts)"

text \<open>
  The value a byte string denotes, \<open>None\<close> when the scanner rejects it with a
  \<^verbatim>\<open>SyntaxError\<close>.
\<close>

definition json_decode :: "string \<Rightarrow> json option" where
  "json_decode data = (case lex LTop data of None \<Rightarrow> None | Some ts \<Rightarrow> run (EValue, []) ts)"

section \<open>Go values and the parts of the Go library left open\<close>

text \<open>
  What \<^verbatim>\<open>json.Unmarshal\<close> stores into an \<^verbatim>\<open>interface{}\<close>: nil, bool, float64,
  string, \<^verbatim>\<open>[]interface{}\<close> or \<^verbatim>\<open>map[string]interface{}\<close>. The type \<open>'f\<close> stands
  for float64. A map is kept as an association list with distinct keys in increasing byte
  order, which is the order in which \<^verbatim>\<open>json.Marshal\<close> writes a map.
\<close>

datatype 'f goval =
    GNil
  | GBool bool
  | GFloat 'f
  | GString string
  | GSlice "'f goval list"
  | GMap "(string \<times> 'f goval) list"

datatype decode_err =
    SyntaxError string  \<comment> \<open>the rejected input\<close>
  | UnmarshalTypeError string string  \<comment> \<open>the kind of JSON value, and the Go field or type\<close>

text \<open>
  IEEE arithmetic, number parsing and formatting, and the wording of the decoder's
  diagnostics belong to Go, not to this program. They are parameters of the model:
  every function below takes them as the record \<open>fl\<close>, and a theorem with a free \<open>fl\<close>
  holds for each interpretation of them.
\<close>

record 'f golib =
  ParseFloat :: "string \<Rightarrow> 'f option"  \<comment> \<open>\<^verbatim>\<open>strconv.ParseFloat(s, 64)\<close>, \<open>None\<close> on a range error\<close>
  IsFinite :: "'f \<Rightarrow> bool"  \<comment> \<open>neither NaN nor an infinity: what \<^verbatim>\<open>json.Marshal\<close> accepts\<close>
  FormatF :: "'f \<Rightarrow> string"  \<comment> \<open>\<^verbatim>\<open>fmt.Sprintf("%f", x)\<close>\<close>
  f_zero :: "'f"  \<comment> \<open>the zero value of float64, and the constant 0\<close>
  f_eq :: "'f \<Rightarrow> 'f \<Rightarrow> bool"  \<comment> \<open>\<^verbatim>\<open>==\<close>\<close>
  f_add :: "'f \<Rightarrow> 'f \<Rightarrow> 'f"
  f_sub :: "'f \<Rightarrow> 'f \<Rightarrow> 'f"
  f_mul :: "'f \<Rightarrow> 'f \<Rightarrow> 'f"
  f_quo :: "'f \<Rightarrow> 'f \<Rightarrow> 'f"
  ErrorString :: "decode_err \<Rightarrow> string"  \<comment> \<open>\<^verbatim>\<open>err.Error()\<close> of a decoding error\<close>

fun bytes_less :: "string \<Rightarrow> string \<Rightarrow> bool" where
  "bytes_less [] [] = False"
| "bytes_less [] (y # ys) = True"
| "bytes_less (x # xs) [] = False"
| "bytes_less (x # xs) (y # ys) =
     ((of_char x :: nat) < of_char y \<or> (x = y \<and> bytes_less xs ys))"

text \<open>\<^verbatim>\<open>m[k] = v\<close> on a map.\<close>

fun map_insert :: "string \<Rightarrow> 'v \<Rightarrow> (string \<times> 'v) list \<Rightarrow> (string \<times> 'v) list" where
  "map_insert k v [] = [(k, v)]"
| "map_insert k v ((k', v') # kvs) =
     (if k = k' then (k, v) # kvs
      else if bytes_less k k' then (k, v) # (k', v') # kvs
      else (k', v') # map_insert k v kvs)"

text \<open>
  \<^verbatim>\<open>json.Unmarshal(raw, &x)\<close> for \<^verbatim>\<open>x interface{}\<close> and a valid text: every number goes
  through \<^verbatim>\<open>ParseFloat\<close>, and the call returns an error when one of them is out of range.
  A later member of an object overwrites an earlier one with the same key.
\<close>

fun to_goval :: "'f golib \<Rightarrow> json \<Rightarrow> 'f goval option"
  and to_goval_list :: "'f golib \<Rightarrow> json list \<Rightarrow> 'f goval list option"
  and to_goval_members ::
    "'f golib \<Rightarrow> (string \<times> json) list \<Rightarrow> (string \<times> 'f goval) list \<Rightarrow> (string \<times> 'f goval) list option"
where
  "to_goval fl JNull = Some GNil"
| "to_goval fl (JBool b) = Some (GBool b)"
| "to_goval fl (JNum s) = map_option GFloat (ParseFloat fl s)"
| "to_goval fl (JStr s) = Some (GString s)"
| "to_goval fl (JArr vs) = map_option GSlice (to_goval_list fl vs)"
| "to_goval fl (JObj ms) = map_option GMap (to_goval_members fl ms [])"
| "to_goval_list fl [] = Some []"
| "to_goval_list fl (v # vs) =
     (case to_goval fl v of
        None \<Rightarrow> None
      | Some g \<Rightarrow> map_option ((#) g) (to_goval_list fl vs))"
| "to_goval_members fl [] acc = Some acc"
| "to_goval_members fl (kv # ms) acc =
     (case to_goval fl (snd kv) of
        None \<Rightarrow> None
      | Some g \<Rightarrow> to_goval_members fl ms (map_insert (fst kv) g acc))"

text \<open>
  \<^verbatim>\<open>json.Marshal\<close> of such a value fails exactly when it holds a float64 that is not
  finite.
\<close>

fun marshalable :: "'f golib \<Rightarrow> 'f goval \<Rightarrow> bool"
  and marshalable_list :: "'f golib \<Rightarrow> 'f goval list \<Rightarrow> bool"
  and marshalable_members :: "'f golib \<Rightarrow> (string \<times> 'f goval) list \<Rightarrow> bool"
where
  "marshalable fl GNil = True"
| "marshalable fl (GBool b) = True"
| "marshalable fl (GFloat x) = IsFinite fl x"
| "marshalable fl (GString s) = True"
| "marshalable fl (GSlice vs) = marshalable_list fl vs"
| "marshalable fl (GMap kvs) = marshalable_members fl kvs"
| "marshalable_list fl [] = True"
| "marshalable_list fl (v # vs) = (marshalable fl v \<and> marshalable_list fl vs)"
| "marshalable_members fl [] = True"
| "marshalable_members fl (kv # kvs) = (marshalable fl (snd kv) \<and> marshalable_members fl kvs)"

subsection \<open>Matching an object key to a struct field\<close>

text \<open>
  The decoder takes the field whose name equals the key, else the field whose folded name
  equals the folded key. Folding maps a letter to its upper case; U+017F folds to S and
  U+212A to K. Every other byte above 0x7F stays above 0x7F in Go and is copied here, so
  that comparing with a folded ASCII field name gives the same answer.
\<close>

fun foldName :: "string \<Rightarrow> string" where
  "foldName [] = []"
| "foldName (c # cs) =
     (if (97::nat) \<le> of_char c \<and> of_char c \<le> (122::nat) then char_of (of_char c - (32::nat)) # foldName cs
      else if c = CHR 0xC5 \<and> take 1 cs = [CHR 0xBF] then CHR ''S'' # foldName (drop 1 cs)
      else if c = CHR 0xE2 \<and> take 2 cs = [CHR 0x84, CHR 0xAA] then CHR ''K'' # foldName (drop 2 cs)
      else c # foldName cs)"

definition fieldMatch :: "string \<Rightarrow> string \<Rightarrow> bool" where
  "fieldMatch name key \<longleftrightarrow> key = name \<or> foldName key = foldName name"

definition json_kind :: "json \<Rightarrow> string" where
  "json_kind v =
     (case v of
        JNull \<Rightarrow> ''null'' | JBool b \<Rightarrow> ''bool'' | JNum s \<Rightarrow> ''number'' | JStr s \<Rightarrow> ''string''
      | JArr vs \<Rightarrow> ''array'' | JObj ms \<Rightarrow> ''object'')"

text \<open>The decoder keeps the first error it meets and goes on.\<close>

definition saveError :: "decode_err \<Rightarrow> decode_err option \<Rightarrow> decode_err option" where
  "saveError e saved = (case saved of None \<Rightarrow> Some e | Some e0 \<Rightarrow> Some e0)"

section \<open>The message model\<close>

definition JSONRPCVersion :: string where
  "JSONRPCVersion = ''2.0''"

record 'f JSONRPCError =
  Code :: int
  Message :: string
  Data :: "'f goval"

record 'f JSONRPCRequest =
  req_JSONRPC :: string
  req_Method :: string
  req_Params :: "'f goval"
  req_ID :: "'f goval"

record 'f JSONRPCNotification =
  ntf_JSONRPC :: string
  ntf_Method :: string
  ntf_Params :: "'f goval"

text \<open>
  In a response, \<open>Result = GNil\<close> is the nil interface and \<open>Error = None\<close> the nil
  pointer; both fields are \<^verbatim>\<open>omitempty\<close>, so a nil one is not written.
\<close>

record 'f JSONRPCResponse =
  JSONRPC :: string
  Result :: "'f goval"
  Error :: "'f JSONRPCError option"
  ID :: "'f goval"

definition ParseError :: int where
  "ParseError = - 32700"

definition InvalidRequest :: int where
  "InvalidRequest = - 32600"

definition MethodNotFound :: int where
  "MethodNotFound = - 32601"

definition InvalidParams :: int where
  "InvalidParams = - 32602"

definition InternalError :: int where
  "InternalError = - 32603"

text \<open>
  \<^verbatim>\<open>ParseMessage\<close> returns an \<^verbatim>\<open>interface{}\<close> that holds a request, a notification or
  a slice of these.
\<close>

datatype 'f message =
    MRequest "'f JSONRPCRequest"
  | MNotification "'f JSONRPCNotification"

datatype 'f parsed =
    Single "'f message"
  | Batch "'f message list"

section \<open>The parser\<close>

text \<open>
  The anonymous struct of \<^verbatim>\<open>ParseSingleMessage\<close>. A \<^verbatim>\<open>json.RawMessage\<close> is cut from a
  text that the scanner has accepted, so it is kept as the value it denotes. \<open>r_Params\<close>
  is \<open>None\<close> for the nil slice and \<open>r_ID\<close> is \<open>None\<close> for the nil pointer.
\<close>

record rawMessage =
  r_JSONRPC :: string
  r_Method :: string
  r_Params :: "json option"
  r_ID :: "json option"

definition zero_raw :: rawMessage where
  "zero_raw = \<lparr>r_JSONRPC = [], r_Method = [], r_Params = None, r_ID = None\<rparr>"

text \<open>
  Storing one member of the object. A string field takes a string, ignores null and
  records a type error for anything else. The \<^verbatim>\<open>json.RawMessage\<close> field takes every
  value, null included. The field of type \<^verbatim>\<open>*json.RawMessage\<close> is a pointer: the decoder
  sets a pointer to nil on null, and allocates it for every other value.
\<close>

definition store_string :: "string \<Rightarrow> json \<Rightarrow> string \<times> decode_err option \<Rightarrow> string \<times> decode_err option" where
  "store_string field v cur =
     (case v of
        JStr s \<Rightarrow> (s, snd cur)
      | JNull \<Rightarrow> cur
      | _ \<Rightarrow> (fst cur, saveError (UnmarshalTypeError (json_kind v) field) (snd cur)))"

definition store_member ::
  "rawMessage \<times> decode_err option \<Rightarrow> string \<times> json \<Rightarrow> rawMessage \<times> decode_err option" where
  "store_member st kv =
     (let raw = fst st; saved = snd st; k = fst kv; v = snd kv in
      if fieldMatch ''jsonrpc'' k then
        (let r = store_string ''jsonrpc'' v (r_JSONRPC raw, saved) in (raw\<lparr>r_JSONRPC := fst r\<rparr>, snd r))
      else if fieldMatch ''method'' k then
        (let r = store_string ''method'' v (r_Method raw, saved) in (raw\<lparr>r_Method := fst r\<rparr>, snd r))
      else if fieldMatch ''params'' k then (raw\<lparr>r_Params := Some v\<rparr>, saved)
      else if fieldMatch ''id'' k then (raw\<lparr>r_ID := (if v = JNull then None else Some v)\<rparr>, saved)
      else (raw, saved))"

text \<open>\<^verbatim>\<open>json.Unmarshal(data, &raw)\<close> once the scanner has accepted the text.\<close>

definition unmarshal_raw :: "json \<Rightarrow> decode_err + rawMessage" where
  "unmarshal_raw v =
     (case v of
        JObj ms \<Rightarrow>
          (case foldl store_member (zero_raw, None) ms of
             (raw, None) \<Rightarrow> Inr raw
           | (raw, Some e) \<Rightarrow> Inl e)
      | JNull \<Rightarrow> Inr zero_raw
      | _ \<Rightarrow> Inl (UnmarshalTypeError (json_kind v) ''struct''))"

text \<open>\<^verbatim>\<open>json.Unmarshal(data, &batch)\<close> for \<^verbatim>\<open>batch []json.RawMessage\<close>, likewise.\<close>

definition unmarshal_batch :: "json \<Rightarrow> decode_err + json list" where
  "unmarshal_batch v =
     (case v of
        JArr vs \<Rightarrow> Inr vs
      | JNull \<Rightarrow> Inr []
      | _ \<Rightarrow> Inl (UnmarshalTypeError (json_kind v) ''[]json.RawMessage''))"

definition parse_error :: "'f golib \<Rightarrow> decode_err \<Rightarrow> 'f JSONRPCError" where
  "parse_error fl e = \<lparr>Code = ParseError, Message = ''Parse error'', Data = GString (ErrorString fl e)\<rparr>"

definition invalid_request :: "string \<Rightarrow> 'f JSONRPCError" where
  "invalid_request d = \<lparr>Code = InvalidRequest, Message = ''Invalid Request'', Data = GString d\<rparr>"

text \<open>
  \<^verbatim>\<open>ParseSingleMessage\<close> from its first \<^verbatim>\<open>json.Unmarshal\<close> on, for an argument that is
  valid JSON. The batch loop calls it on the elements of the array, which are.
\<close>

definition ParseSingleMessage_raw :: "'f golib \<Rightarrow> json \<Rightarrow> 'f JSONRPCError + 'f message" where
  "ParseSingleMessage_raw fl v =
     (case unmarshal_raw v of
        Inl e \<Rightarrow> Inl (parse_error fl e)
      | Inr raw \<Rightarrow>
          if r_JSONRPC raw \<noteq> JSONRPCVersion then Inl (invalid_request (''jsonrpc field must be '2.0'' @ [CHR 0x27]))
          else if r_Method raw = [] then Inl (invalid_request ''method field is required'')
          else
            (case (case r_Params raw of None \<Rightarrow> Some GNil | Some p \<Rightarrow> to_goval fl p) of
               None \<Rightarrow> Inl (invalid_request ''Invalid params field'')
             | Some params \<Rightarrow>
                 (case r_ID raw of
                    Some i \<Rightarrow>
                      (case to_goval fl i of
                         None \<Rightarrow> Inl (invalid_request ''Invalid ID field'')
                       | Some ident \<Rightarrow>
                           Inr (MRequest \<lparr>req_JSONRPC = r_JSONRPC raw, req_Method = r_Method raw,
                                          req_Params = params, req_ID = ident\<rparr>))
                  | None \<Rightarrow>
                      Inr (MNotification \<lparr>ntf_JSONRPC = r_JSONRPC raw, ntf_Method = r_Method raw,
                                           ntf_Params = params\<rparr>))))"

definition ParseSingleMessage :: "'f golib \<Rightarrow> string \<Rightarrow> 'f JSONRPCError + 'f message" where
  "ParseSingleMessage fl data =
     (case json_decode data of
        None \<Rightarrow> Inl (parse_error fl (SyntaxError data))
      | Some v \<Rightarrow> ParseSingleMessage_raw fl v)"

text \<open>The loop of \<^verbatim>\<open>ParseMessage\<close> over the elements of a batch.\<close>

fun parse_elements ::
  "'f golib \<Rightarrow> json list \<Rightarrow> 'f message list \<Rightarrow> 'f JSONRPCError + 'f message list" where
  "parse_elements fl [] messages = Inr messages"
| "parse_elements fl (raw # batch) messages =
     (case ParseSingleMessage_raw fl raw of
        Inl err \<Rightarrow> Inl err
      | Inr msg \<Rightarrow> parse_elements fl batch (messages @ [msg]))"

definition ParseMessage :: "'f golib \<Rightarrow> string \<Rightarrow> 'f JSONRPCError + 'f parsed" where
  "ParseMessage fl data =
     (if 0 < length data \<and> data ! 0 = CHR ''['' then
        (case json_decode data of
           None \<Rightarrow> Inl (parse_error fl (SyntaxError data))
         | Some v \<Rightarrow>
             (case unmarshal_batch v of
                Inl e \<Rightarrow> Inl (parse_error fl e)
              | Inr batch \<Rightarrow>
                  (case parse_elements fl batch [] of
                     Inl err \<Rightarrow> Inl err
                   | Inr messages \<Rightarrow> Inr (Batch messages))))
      else
        (case ParseSingleMessage fl data of
           Inl err \<Rightarrow> Inl err
         | Inr msg \<Rightarrow> Inr (Single msg)))"

definition CreateSuccessResponse :: "'f goval \<Rightarrow> 'f goval \<Rightarrow> 'f JSONRPCResponse" where
  "CreateSuccessResponse result ident =
     \<lparr>JSONRPC = JSONRPCVersion, Result = result, Error = None, ID = ident\<rparr>"

definition CreateErrorResponse :: "'f JSONRPCError \<Rightarrow> 'f goval \<Rightarrow> 'f JSONRPCResponse" where
  "CreateErrorResponse err ident =
     \<lparr>JSONRPC = JSONRPCVersion, Result = GNil, Error = Some err, ID = ident\<rparr>"

section \<open>The calculator\<close>

record 'f CalculatorParams =
  A :: "'f"
  B :: "'f"

record LogParams =
  log_Message :: string

text \<open>
  An \<^verbatim>\<open>error\<close> is either a \<^verbatim>\<open>*JSONRPCError\<close> or something else, of which only the text
  of \<^verbatim>\<open>Error()\<close> is used.
\<close>

datatype 'f go_error =
    RPCError "'f JSONRPCError"
  | OtherError string

definition Add :: "'f golib \<Rightarrow> 'f CalculatorParams \<Rightarrow> 'f go_error + 'f" where
  "Add fl params = Inr (f_add fl (A params) (B params))"

definition Subtract :: "'f golib \<Rightarrow> 'f CalculatorParams \<Rightarrow> 'f go_error + 'f" where
  "Subtract fl params = Inr (f_sub fl (A params) (B params))"

definition Multiply :: "'f golib \<Rightarrow> 'f CalculatorParams \<Rightarrow> 'f go_error + 'f" where
  "Multiply fl params = Inr (f_mul fl (A params) (B params))"

definition Divide :: "'f golib \<Rightarrow> 'f CalculatorParams \<Rightarrow> 'f go_error + 'f" where
  "Divide fl params =
     (if f_eq fl (B params) (f_zero fl) then
        Inl (RPCError \<lparr>Code = - 32000, Message = ''Division by zero'',
                       Data = GString (''Cannot divide '' @ FormatF fl (A params) @ '' by zero'')\<rparr>)
      else Inr (f_quo fl (A params) (B params)))"

definition GetInfo :: "'f go_error + 'f goval" where
  "GetInfo =
     Inr (GMap [(''description'', GString ''A simple calculator implementing JSON-RPC 2.0''),
                (''methods'', GSlice [GString ''add'', GString ''subtract'', GString ''multiply'',
                                      GString ''divide'']),
                (''name'', GString ''JSON-RPC Calculator''),
                (''version'', GString ''1.0'')])"

section \<open>The dispatcher\<close>

text \<open>
  The calls of \<^verbatim>\<open>log.Printf\<close> write to the process log; they return nothing and are
  left out. \<^verbatim>\<open>Calculator.Log\<close> only logs.
\<close>

text \<open>
  \<^verbatim>\<open>json.Unmarshal\<close> into a \<^verbatim>\<open>CalculatorParams\<close> of what \<^verbatim>\<open>json.Marshal\<close> wrote for
  the value. Marshal writes a finite float64 so that it reads back as the same float64. A
  float64 field takes a number, ignores null and records a type error for anything else;
  a key that matches no field is skipped; a field that no member sets keeps its zero value.
\<close>

definition store_float :: "'f goval \<Rightarrow> 'f \<times> bool \<Rightarrow> 'f \<times> bool" where
  "store_float v cur =
     (case v of
        GFloat x \<Rightarrow> (x, snd cur)
      | GNil \<Rightarrow> cur
      | _ \<Rightarrow> (fst cur, True))"

definition store_calc ::
  "'f CalculatorParams \<times> bool \<Rightarrow> string \<times> 'f goval \<Rightarrow> 'f CalculatorParams \<times> bool" where
  "store_calc st kv =
     (let p = fst st; failed = snd st; k = fst kv; v = snd kv in
      if fieldMatch ''a'' k then (let r = store_float v (A p, failed) in (p\<lparr>A := fst r\<rparr>, snd r))
      else if fieldMatch ''b'' k then (let r = store_float v (B p, failed) in (p\<lparr>B := fst r\<rparr>, snd r))
      else (p, failed))"

definition unmarshal_CalculatorParams :: "'f golib \<Rightarrow> 'f goval \<Rightarrow> 'f CalculatorParams option" where
  "unmarshal_CalculatorParams fl v =
     (case v of
        GMap kvs \<Rightarrow>
          (case foldl store_calc (\<lparr>A = f_zero fl, B = f_zero fl\<rparr>, False) kvs of
             (p, failed) \<Rightarrow> if failed then None else Some p)
      | GNil \<Rightarrow> Some \<lparr>A = f_zero fl, B = f_zero fl\<rparr>
      | _ \<Rightarrow> None)"

definition store_log :: "LogParams \<times> bool \<Rightarrow> string \<times> 'f goval \<Rightarrow> LogParams \<times> bool" where
  "store_log st kv =
     (let p = fst st; failed = snd st; k = fst kv; v = snd kv in
      if fieldMatch ''message'' k then
        (case v of
           GString s \<Rightarrow> (p\<lparr>log_Message := s\<rparr>, failed)
         | GNil \<Rightarrow> (p, failed)
         | _ \<Rightarrow> (p, True))
      else (p, failed))"

definition unmarshal_LogParams :: "'f goval \<Rightarrow> LogParams option" where
  "unmarshal_LogParams v =
     (case v of
        GMap kvs \<Rightarrow>
          (case foldl store_log (\<lparr>log_Message = []\<rparr>, False) kvs of
             (p, failed) \<Rightarrow> if failed then None else Some p)
      | GNil \<Rightarrow> Some \<lparr>log_Message = []\<rparr>
      | _ \<Rightarrow> None)"

definition invalid_params :: "string \<Rightarrow> 'f go_error" where
  "invalid_params d = RPCError \<lparr>Code = InvalidParams, Message = ''Invalid params'', Data = GString d\<rparr>"

text \<open>
  \<^verbatim>\<open>reflect.ValueOf(s.calculator).MethodByName\<close>, for the methods that take a
  \<^verbatim>\<open>CalculatorParams\<close>. \<^verbatim>\<open>callMethod\<close> passes no other name; each of these methods
  returns two values, so the test on the number of results never fires.
\<close>

definition MethodByName ::
  "'f golib \<Rightarrow> string \<Rightarrow> ('f CalculatorParams \<Rightarrow> 'f go_error + 'f) option" where
  "MethodByName fl methodName =
     (if methodName = ''Add'' then Some (Add fl)
      else if methodName = ''Subtract'' then Some (Subtract fl)
      else if methodName = ''Multiply'' then Some (Multiply fl)
      else if methodName = ''Divide'' then Some (Divide fl)
      else None)"

definition callCalculatorMethod :: "'f golib \<Rightarrow> string \<Rightarrow> 'f goval \<Rightarrow> 'f go_error + 'f goval" where
  \<open>callCalculatorMethod fl methodName params =
     (if params \<noteq> GNil then
        if \<not> marshalable fl params then Inl (invalid_params ''Cannot marshal parameters'')
        else
          (case unmarshal_CalculatorParams fl params of
             None \<Rightarrow> Inl (invalid_params ''Expected parameters: {"a": number, "b": number}'')
           | Some calcParams \<Rightarrow>
               (case MethodByName fl methodName of
                  None \<Rightarrow>
                    Inl (RPCError \<lparr>Code = InternalError, Message = ''Internal error'',
                                   Data = GString (''Method '' @ methodName @ '' not found on calculator'')\<rparr>)
                | Some method \<Rightarrow>
                    (case method calcParams of
                       Inl err \<Rightarrow> Inl err
                     | Inr x \<Rightarrow> Inr (GFloat x))))
      else Inl (invalid_params ''Parameters required: {"a": number, "b": number}''))\<close>

definition callNotificationMethod :: "'f golib \<Rightarrow> string \<Rightarrow> 'f goval \<Rightarrow> 'f go_error + 'f goval" where
  \<open>callNotificationMethod fl methodName params =
     (if methodName = ''Log'' then
        (if params \<noteq> GNil then
           if \<not> marshalable fl params then Inl (invalid_params ''Cannot marshal parameters'')
           else
             (case unmarshal_LogParams params of
                None \<Rightarrow> Inl (invalid_params ''Expected parameters: {"message": string}'')
              | Some logParams \<Rightarrow> Inr GNil)
         else Inl (invalid_params ''Parameters required: {"message": string}''))
      else
        Inl (RPCError \<lparr>Code = MethodNotFound, Message = ''Method not found'',
                       Data = GString (''Notification method '' @ [CHR 0x27] @ methodName @ [CHR 0x27]
                                        @ '' is not available'')\<rparr>))\<close>

definition callMethod :: "'f golib \<Rightarrow> string \<Rightarrow> 'f goval \<Rightarrow> 'f go_error + 'f goval" where
  "callMethod fl method params =
     (if method = ''add'' then callCalculatorMethod fl ''Add'' params
      else if method = ''subtract'' then callCalculatorMethod fl ''Subtract'' params
      else if method = ''multiply'' then callCalculatorMethod fl ''Multiply'' params
      else if method = ''divide'' then callCalculatorMethod fl ''Divide'' params
      else if method = ''getInfo'' then GetInfo
      else if method = ''log'' then callNotificationMethod fl ''Log'' params
      else
        Inl (RPCError \<lparr>Code = MethodNotFound, Message = ''Method not found'',
                       Data = GString (''Method '' @ [CHR 0x27] @ method @ [CHR 0x27]
                                        @ '' is not available'')\<rparr>))"

definition handleSingleRequest :: "'f golib \<Rightarrow> 'f JSONRPCRequest \<Rightarrow> 'f JSONRPCResponse" where
  "handleSingleRequest fl req =
     (case callMethod fl (req_Method req) (req_Params req) of
        Inl (RPCError jsonrpcErr) \<Rightarrow> CreateErrorResponse jsonrpcErr (req_ID req)
      | Inl (OtherError msg) \<Rightarrow>
          CreateErrorResponse
            \<lparr>Code = InternalError, Message = ''Internal error'', Data = GString msg\<rparr> (req_ID req)
      | Inr result \<Rightarrow> CreateSuccessResponse result (req_ID req))"

text \<open>The result and the error of the call are dropped; only the log would show them.\<close>

definition handleNotification :: "'f golib \<Rightarrow> 'f JSONRPCNotification \<Rightarrow> unit" where
  "handleNotification fl notif =
     (case callMethod fl (ntf_Method notif) (ntf_Params notif) of
        Inl err \<Rightarrow> ()
      | Inr result \<Rightarrow> ())"

text \<open>
  \<^verbatim>\<open>HandleRequest\<close> returns \<^verbatim>\<open>(nil, nil)\<close> or what \<^verbatim>\<open>json.Marshal\<close> makes of a response
  or of a slice of responses. Writing the bytes is the library's work: the model returns
  the value that is handed to \<^verbatim>\<open>json.Marshal\<close>.
\<close>

datatype 'f reply =
    NoResponse  \<comment> \<open>\<^verbatim>\<open>return nil, nil\<close>\<close>
  | MarshalResponse "'f JSONRPCResponse"  \<comment> \<open>\<^verbatim>\<open>return json.Marshal(response)\<close>\<close>
  | MarshalResponses "'f JSONRPCResponse list"  \<comment> \<open>\<^verbatim>\<open>return json.Marshal(responses)\<close>\<close>

fun batch_loop ::
  "'f golib \<Rightarrow> 'f message list \<Rightarrow> 'f JSONRPCResponse list \<Rightarrow> 'f JSONRPCResponse list" where
  "batch_loop fl [] responses = responses"
| "batch_loop fl (MRequest m # messages) responses =
     batch_loop fl messages (responses @ [handleSingleRequest fl m])"
| "batch_loop fl (MNotification m # messages) responses =
     (case handleNotification fl m of () \<Rightarrow> batch_loop fl messages responses)"

definition handleBatchRequest :: "'f golib \<Rightarrow> 'f message list \<Rightarrow> 'f reply" where
  "handleBatchRequest fl messages =
     (let responses = batch_loop fl messages [] in
      if length responses = 0 then NoResponse else MarshalResponses responses)"

definition HandleRequest :: "'f golib \<Rightarrow> string \<Rightarrow> 'f reply" where
  "HandleRequest fl data =
     (case ParseMessage fl data of
        Inl err \<Rightarrow> MarshalResponse (CreateErrorResponse err GNil)
      | Inr (Batch msg) \<Rightarrow> handleBatchRequest fl msg
      | Inr (Single (MRequest msg)) \<Rightarrow> MarshalResponse (handleSingleRequest fl msg)
      | Inr (Single (MNotification msg)) \<Rightarrow> (case handleNotification fl msg of () \<Rightarrow> NoResponse))"

section \<open>An interpretation of the library on exact numbers\<close>

text \<open>
  To run the model on a concrete input the parameters need values. Here a number is a
  rational and arithmetic is exact. float64 agrees with it as long as every number
  involved is a float64 value and no operation rounds, which is so for the small
  integers of the examples. The diagnostics get a fixed wording.
\<close>

definition dec_val :: "string \<Rightarrow> nat" where
  "dec_val s = foldl (\<lambda>n c. 10 * n + (of_char c - 48)) 0 s"

definition parse_decimal :: "string \<Rightarrow> rat" where
  "parse_decimal s =
     (let neg = (take 1 s = ''-'');
          s1 = (if neg then drop 1 s else s);
          ip = takeWhile isDigit s1;
          r1 = dropWhile isDigit s1;
          fp = (if take 1 r1 = ''.'' then takeWhile isDigit (drop 1 r1) else []);
          r2 = (if take 1 r1 = ''.'' then dropWhile isDigit (drop 1 r1) else r1);
          ex = (if r2 = [] then 0
                else if take 1 (drop 1 r2) = ''-'' then - int (dec_val (drop 2 r2))
                else if take 1 (drop 1 r2) = ''+'' then int (dec_val (drop 2 r2))
                else int (dec_val (drop 1 r2)));
          m = (of_nat (dec_val (ip @ fp)) :: rat) / 10 ^ length fp;
          v = (if 0 \<le> ex then m * 10 ^ nat ex else m / 10 ^ nat (- ex))
      in if neg then - v else v)"

definition digit_char :: "nat \<Rightarrow> char" where
  "digit_char d = ''0123456789'' ! d"

fun show_nat :: "nat \<Rightarrow> string" where
  "show_nat n =
     (if n < 10 then [digit_char n] else show_nat (n div 10) @ [digit_char (n mod 10)])"

definition round_half_even :: "rat \<Rightarrow> nat" where
  "round_half_even y =
     (let f = nat \<lfloor>y\<rfloor>; d = y - of_nat f in
      if d < 1 / 2 then f else if 1 / 2 < d then f + 1 else if even f then f else f + 1)"

definition format_f :: "rat \<Rightarrow> string" where
  "format_f x =
     (let n = round_half_even (\<bar>x\<bar> * 1000000); frac = show_nat (n mod 1000000) in
      (if x < 0 then ''-'' else []) @ show_nat (n div 1000000) @ ''.''
        @ drop (length frac) ''000000'' @ frac)"

definition exact_errors :: "decode_err \<Rightarrow> string" where
  "exact_errors e =
     (case e of
        SyntaxError data \<Rightarrow> ''json: syntax error''
      | UnmarshalTypeError kind ty \<Rightarrow> ''json: cannot unmarshal '' @ kind @ '' into Go value of type '' @ ty)"

definition exact :: "rat golib" where
  "exact =
     \<lparr>ParseFloat = (\<lambda>s. Some (parse_decimal s)), IsFinite = (\<lambda>x. True), FormatF = format_f,
      f_zero = 0, f_eq = (=), f_add = (+), f_sub = (-), f_mul = (*), f_quo = (/),
      ErrorString = exact_errors\<rparr>"

section \<open>Notions used to state the properties\<close>

text \<open>The requests of a batch, in the order of the batch.\<close>

fun requests_of :: "'f message list \<Rightarrow> 'f JSONRPCRequest list" where
  "requests_of [] = []"
| "requests_of (MRequest r # ms) = r # requests_of ms"
| "requests_of (MNotification n # ms) = requests_of ms"

definition is_number_or_null :: "'f goval \<Rightarrow> bool" where
  "is_number_or_null v = (case v of GFloat x \<Rightarrow> True | GNil \<Rightarrow> True | _ \<Rightarrow> False)"

definition is_number :: "'f goval \<Rightarrow> bool" where
  "is_number v = (case v of GFloat x \<Rightarrow> True | _ \<Rightarrow> False)"

text \<open>
  Every member of the object whose key matches field \<open>a\<close> or field \<open>b\<close> holds a number
  or null.
\<close>

fun calc_fields_ok :: "(string \<times> 'f goval) list \<Rightarrow> bool" where
  "calc_fields_ok [] = True"
| "calc_fields_ok (kv # kvs) =
     ((if fieldMatch ''a'' (fst kv) \<or> fieldMatch ''b'' (fst kv) then is_number_or_null (snd kv)
       else True)
      \<and> calc_fields_ok kvs)"

text \<open>Some member of the object gives the field a number.\<close>

fun sets_field :: "string \<Rightarrow> (string \<times> 'f goval) list \<Rightarrow> bool" where
  "sets_field name [] = False"
| "sets_field name (kv # kvs) =
     ((fieldMatch name (fst kv) \<and> is_number (snd kv)) \<or> sets_field name kvs)"

text \<open>\<^verbatim>\<open>ParseFloat\<close> returns finite numbers only.\<close>

definition finite_floats :: "'f golib \<Rightarrow> bool" where
  "finite_floats fl \<longleftrightarrow> (\<forall>s x. ParseFloat fl s = Some x \<longrightarrow> IsFinite fl x)"

subsection \<open>Example inputs\<close>

definition add_request :: string where
  \<open>add_request = ''{"jsonrpc":"2.0","method":"add","params":{"a":15,"b":25},"id":1}''\<close>

definition log_notification :: string where
  \<open>log_notification = ''{"jsonrpc":"2.0","method":"log","params":{"message":"hi"}}''\<close>

definition mixed_batch :: string where
  \<open>mixed_batch = ''[{"jsonrpc":"2.0","method":"add","params":{"a":15,"b":25},"id":1},{"jsonrpc":"2.0","method":"log","params":{"message":"hi"}},{"jsonrpc":"2.0","method":"multiply","params":{"a":3,"b":4},"id":2}]''\<close>

definition divide_by_zero_request :: string where
  \<open>divide_by_zero_request = ''{"jsonrpc":"2.0","method":"divide","params":{"a":5,"b":0},"id":2}''\<close>

definition null_id_request :: string where
  \<open>null_id_request = ''{"jsonrpc":"2.0","method":"add","params":{"a":1,"b":2},"id":null}''\<close>

definition log_request :: string where
  \<open>log_request = ''{"jsonrpc":"2.0","method":"log","params":{"message":"hi"},"id":1}''\<close>

definition batch_of_one :: string where
  \<open>batch_of_one = ''[{"jsonrpc":"2.0","method":"add","params":{"a":1,"b":2},"id":1}]''\<close>

definition version_1_request :: string where
  \<open>version_1_request = ''{"jsonrpc":"1.0","method":"add","id":3}''\<close>

definition bad_batch :: string where
  \<open>bad_batch = ''[{"jsonrpc":"2.0","method":"add","params":{"a":1,"b":2},"id":1},{"jsonrpc":"1.0","method":"add","id":3}]''\<close>

definition elem_add_1_2 :: json where
  "elem_add_1_2 =
     JObj [(''jsonrpc'', JStr ''2.0''), (''method'', JStr ''add''),
           (''params'', JObj [(''a'', JNum ''1''), (''b'', JNum ''2'')]), (''id'', JNum ''1'')]"

definition elem_version_1 :: json where
  "elem_version_1 =
     JObj [(''jsonrpc'', JStr ''1.0''), (''method'', JStr ''add''), (''id'', JNum ''3'')]"

definition jsonrpc_must_be_2_0 :: string where
  "jsonrpc_must_be_2_0 = ''jsonrpc field must be '2.0'' @ [CHR 0x27]"

definition divide_missing_b :: string where
  \<open>divide_missing_b = ''{"jsonrpc":"2.0","method":"divide","params":{"a":5},"id":1}''\<close>

definition add_array_params :: string where
  \<open>add_array_params = ''{"jsonrpc":"2.0","method":"add","params":[1,2],"id":1}''\<close>

section \<open>Evaluating the model\<close>

lemma fieldMatch_table:
  "fieldMatch ''jsonrpc'' ''jsonrpc''" "\<not> fieldMatch ''jsonrpc'' ''method''"
  "\<not> fieldMatch ''jsonrpc'' ''params''" "\<not> fieldMatch ''jsonrpc'' ''id''"
  "fieldMatch ''method'' ''method''" "\<not> fieldMatch ''method'' ''params''"
  "\<not> fieldMatch ''method'' ''id''"
  "fieldMatch ''params'' ''params''" "\<not> fieldMatch ''params'' ''id''"
  "fieldMatch ''id'' ''id''"
  "fieldMatch ''a'' ''a''" "\<not> fieldMatch ''a'' ''b''" "fieldMatch ''b'' ''b''"
  "\<not> fieldMatch ''a'' ''message''" "\<not> fieldMatch ''b'' ''message''"
  "fieldMatch ''message'' ''message''"
  by code_simp+

lemma parse_decimal_table:
  "parse_decimal ''0'' = 0" "parse_decimal ''1'' = 1" "parse_decimal ''2'' = 2"
  "parse_decimal ''3'' = 3" "parse_decimal ''4'' = 4" "parse_decimal ''5'' = 5"
  "parse_decimal ''15'' = 15" "parse_decimal ''25'' = 25"
  by (simp_all add: parse_decimal_def dec_val_def isDigit_def Let_def)

lemma bytes_less_table:
  "bytes_less ''a'' ''b''" "\<not> bytes_less ''b'' ''a''"
  by simp_all

lemmas eval_defs =
  ParseMessage_def ParseSingleMessage_def ParseSingleMessage_raw_def
  unmarshal_raw_def store_member_def store_string_def zero_raw_def JSONRPCVersion_def
  HandleRequest_def handleSingleRequest_def handleNotification_def handleBatchRequest_def
  callMethod_def callCalculatorMethod_def callNotificationMethod_def
  unmarshal_CalculatorParams_def store_calc_def store_float_def
  unmarshal_LogParams_def store_log_def
  MethodByName_def Add_def Subtract_def Multiply_def Divide_def GetInfo_def
  CreateErrorResponse_def CreateSuccessResponse_def
  invalid_params_def invalid_request_def parse_error_def
  unmarshal_batch_def exact_def Let_def
  fieldMatch_table parse_decimal_table bytes_less_table

lemma decode_add_request:
  "json_decode add_request =
     Some (JObj [(''jsonrpc'', JStr ''2.0''), (''method'', JStr ''add''),
                 (''params'', JObj [(''a'', JNum ''15''), (''b'', JNum ''25'')]),
                 (''id'', JNum ''1'')])"
  by code_simp

lemma decode_log_notification:
  "json_decode log_notification =
     Some (JObj [(''jsonrpc'', JStr ''2.0''), (''method'', JStr ''log''),
                 (''params'', JObj [(''message'', JStr ''hi'')])])"
  by code_simp

lemma decode_mixed_batch:
  "json_decode mixed_batch =
     Some (JArr [JObj [(''jsonrpc'', JStr ''2.0''), (''method'', JStr ''add''),
                       (''params'', JObj [(''a'', JNum ''15''), (''b'', JNum ''25'')]),
                       (''id'', JNum ''1'')],
                 JObj [(''jsonrpc'', JStr ''2.0''), (''method'', JStr ''log''),
                       (''params'', JObj [(''message'', JStr ''hi'')])],
                 JObj [(''jsonrpc'', JStr ''2.0''), (''method'', JStr ''multiply''),
                       (''params'', JObj [(''a'', JNum ''3''), (''b'', JNum ''4'')]),
                       (''id'', JNum ''2'')]])"
  by code_simp

lemma head_add_request: "\<not> (0 < length add_request \<and> add_request ! 0 = CHR ''['')"
  by (simp add: add_request_def)

lemma head_log_notification:
  "\<not> (0 < length log_notification \<and> log_notification ! 0 = CHR ''['')"
  by (simp add: log_notification_def)

lemma head_mixed_batch: "0 < length mixed_batch \<and> mixed_batch ! 0 = CHR ''[''"
  by (simp add: mixed_batch_def)

lemma parse_add_request:
  "ParseMessage exact add_request =
     Inr (Single (MRequest \<lparr>req_JSONRPC = ''2.0'', req_Method = ''add'',
                             req_Params = GMap [(''a'', GFloat 15), (''b'', GFloat 25)],
                             req_ID = GFloat 1\<rparr>))"
  using head_add_request by (simp add: eval_defs decode_add_request)

lemma parse_log_notification:
  "ParseMessage exact log_notification =
     Inr (Single (MNotification \<lparr>ntf_JSONRPC = ''2.0'', ntf_Method = ''log'',
                                  ntf_Params = GMap [(''message'', GString ''hi'')]\<rparr>))"
  using head_log_notification by (simp add: eval_defs decode_log_notification)

lemma parse_mixed_batch:
  "ParseMessage exact mixed_batch =
     Inr (Batch [MRequest \<lparr>req_JSONRPC = ''2.0'', req_Method = ''add'',
                            req_Params = GMap [(''a'', GFloat 15), (''b'', GFloat 25)],
                            req_ID = GFloat 1\<rparr>,
                 MNotification \<lparr>ntf_JSONRPC = ''2.0'', ntf_Method = ''log'',
                                 ntf_Params = GMap [(''message'', GString ''hi'')]\<rparr>,
                 MRequest \<lparr>req_JSONRPC = ''2.0'', req_Method = ''multiply'',
                            req_Params = GMap [(''a'', GFloat 3), (''b'', GFloat 4)],
                            req_ID = GFloat 2\<rparr>])"
  using head_mixed_batch by (simp add: eval_defs decode_mixed_batch)

lemma handle_add_15_25:
  "handleSingleRequest exact
     \<lparr>req_JSONRPC = ''2.0'', req_Method = ''add'',
      req_Params = GMap [(''a'', GFloat 15), (''b'', GFloat 25)], req_ID = GFloat 1\<rparr> =
   \<lparr>JSONRPC = ''2.0'', Result = GFloat 40, Error = None, ID = GFloat 1\<rparr>"
  by (simp add: eval_defs)

lemma handle_multiply_3_4:
  "handleSingleRequest exact
     \<lparr>req_JSONRPC = ''2.0'', req_Method = ''multiply'',
      req_Params = GMap [(''a'', GFloat 3), (''b'', GFloat 4)], req_ID = GFloat 2\<rparr> =
   \<lparr>JSONRPC = ''2.0'', Result = GFloat 12, Error = None, ID = GFloat 2\<rparr>"
  by (simp add: eval_defs)

lemma show_nat_table: "show_nat 5 = ''5''" "show_nat 0 = ''0''"
  by (subst show_nat.simps, simp add: digit_char_def)+

lemma round_half_even_5000000: "round_half_even 5000000 = 5000000"
  by (simp add: round_half_even_def Let_def)

lemma format_f_5: "format_f 5 = ''5.000000''"
  by (simp add: format_f_def round_half_even_5000000 show_nat_table Let_def del: show_nat.simps)

lemma decode_divide_by_zero_request:
  "json_decode divide_by_zero_request =
     Some (JObj [(''jsonrpc'', JStr ''2.0''), (''method'', JStr ''divide''),
                 (''params'', JObj [(''a'', JNum ''5''), (''b'', JNum ''0'')]),
                 (''id'', JNum ''2'')])"
  by code_simp

lemma decode_null_id_request:
  "json_decode null_id_request =
     Some (JObj [(''jsonrpc'', JStr ''2.0''), (''method'', JStr ''add''),
                 (''params'', JObj [(''a'', JNum ''1''), (''b'', JNum ''2'')]),
                 (''id'', JNull)])"
  by code_simp

lemma decode_log_request:
  "json_decode log_request =
     Some (JObj [(''jsonrpc'', JStr ''2.0''), (''method'', JStr ''log''),
                 (''params'', JObj [(''message'', JStr ''hi'')]), (''id'', JNum ''1'')])"
  by code_simp

lemma decode_batch_of_one:
  "json_decode batch_of_one =
     Some (JArr [JObj [(''jsonrpc'', JStr ''2.0''), (''method'', JStr ''add''),
                       (''params'', JObj [(''a'', JNum ''1''), (''b'', JNum ''2'')]),
                       (''id'', JNum ''1'')]])"
  by code_simp

lemma decode_spaced_batch_of_one:
  "json_decode (CHR '' '' # batch_of_one) =
     Some (JArr [JObj [(''jsonrpc'', JStr ''2.0''), (''method'', JStr ''add''),
                       (''params'', JObj [(''a'', JNum ''1''), (''b'', JNum ''2'')]),
                       (''id'', JNum ''1'')]])"
  by code_simp

lemma decode_version_1_request:
  "json_decode version_1_request =
     Some (JObj [(''jsonrpc'', JStr ''1.0''), (''method'', JStr ''add''), (''id'', JNum ''3'')])"
  by code_simp

lemma head_divide_by_zero_request:
  "\<not> (0 < length divide_by_zero_request \<and> divide_by_zero_request ! 0 = CHR ''['')"
  by (simp add: divide_by_zero_request_def)

lemma head_null_id_request:
  "\<not> (0 < length null_id_request \<and> null_id_request ! 0 = CHR ''['')"
  by (simp add: null_id_request_def)

lemma head_log_request: "\<not> (0 < length log_request \<and> log_request ! 0 = CHR ''['')"
  by (simp add: log_request_def)

lemma head_batch_of_one: "0 < length batch_of_one \<and> batch_of_one ! 0 = CHR ''[''"
  by (simp add: batch_of_one_def)

lemma head_version_1_request:
  "\<not> (0 < length version_1_request \<and> version_1_request ! 0 = CHR ''['')"
  by (simp add: version_1_request_def)

lemma parse_divide_by_zero_request:
  "ParseMessage exact divide_by_zero_request =
     Inr (Single (MRequest \<lparr>req_JSONRPC = ''2.0'', req_Method = ''divide'',
                             req_Params = GMap [(''a'', GFloat 5), (''b'', GFloat 0)],
                             req_ID = GFloat 2\<rparr>))"
  using head_divide_by_zero_request by (simp add: eval_defs decode_divide_by_zero_request)

lemma call_divide_5_0:
  "callMethod exact ''divide'' (GMap [(''a'', GFloat 5), (''b'', GFloat 0)]) =
     Inl (RPCError \<lparr>Code = - 32000, Message = ''Division by zero'',
                    Data = GString ''Cannot divide 5.000000 by zero''\<rparr>)"
  by (simp add: eval_defs format_f_5)

lemma decode_bad_batch: "json_decode bad_batch = Some (JArr [elem_add_1_2, elem_version_1])"
  by code_simp

lemma head_bad_batch: "0 < length bad_batch \<and> bad_batch ! 0 = CHR ''[''"
  by (simp add: bad_batch_def)

lemma decode_version_1_request': "json_decode version_1_request = Some elem_version_1"
  by code_simp

lemma first_byte_version_1_request: "version_1_request ! 0 \<noteq> CHR ''[''"
  by (simp add: version_1_request_def)

lemma unmarshal_elem_version_1:
  "unmarshal_raw elem_version_1 =
     Inr \<lparr>r_JSONRPC = ''1.0'', r_Method = ''add'', r_Params = None, r_ID = Some (JNum ''3'')\<rparr>"
  by (simp add: elem_version_1_def eval_defs)

lemma parse_elem_add_1_2:
  "ParseSingleMessage_raw exact elem_add_1_2 =
     Inr (MRequest \<lparr>req_JSONRPC = ''2.0'', req_Method = ''add'',
                     req_Params = GMap [(''a'', GFloat 1), (''b'', GFloat 2)],
                     req_ID = GFloat 1\<rparr>)"
  by (simp add: elem_add_1_2_def eval_defs)

lemma parse_elem_version_1:
  "ParseSingleMessage_raw exact elem_version_1 = Inl (invalid_request jsonrpc_must_be_2_0)"
  by (simp add: ParseSingleMessage_raw_def unmarshal_elem_version_1 JSONRPCVersion_def
      jsonrpc_must_be_2_0_def)

lemma parse_elements_all:
  "map (ParseSingleMessage_raw fl) raws = map Inr msgs \<Longrightarrow>
   parse_elements fl raws acc = Inr (acc @ msgs)"
proof (induction raws arbitrary: acc msgs)
  case Nil
  then show ?case by simp
next
  case (Cons raw raws)
  then obtain m ms where "msgs = m # ms" by (cases msgs) auto
  with Cons show ?case by simp
qed

lemma parse_elements_first_failure:
  "map (ParseSingleMessage_raw fl) before = map Inr msgs \<Longrightarrow>
   ParseSingleMessage_raw fl bad = Inl err \<Longrightarrow>
   parse_elements fl (before @ bad # rest) acc = Inl err"
proof (induction before arbitrary: acc msgs)
  case Nil
  then show ?case by simp
next
  case (Cons raw before)
  then obtain m ms where "msgs = m # ms" by (cases msgs) auto
  with Cons show ?case by simp
qed

lemma decode_divide_missing_b:
  "json_decode divide_missing_b =
     Some (JObj [(''jsonrpc'', JStr ''2.0''), (''method'', JStr ''divide''),
                 (''params'', JObj [(''a'', JNum ''5'')]), (''id'', JNum ''1'')])"
  by code_simp

lemma decode_add_array_params:
  "json_decode add_array_params =
     Some (JObj [(''jsonrpc'', JStr ''2.0''), (''method'', JStr ''add''),
                 (''params'', JArr [JNum ''1'', JNum ''2'']), (''id'', JNum ''1'')])"
  by code_simp

lemma first_byte_divide_missing_b: "divide_missing_b ! 0 \<noteq> CHR ''[''"
  by (simp add: divide_missing_b_def)

lemma first_byte_add_array_params: "add_array_params ! 0 \<noteq> CHR ''[''"
  by (simp add: add_array_params_def)

lemma parse_divide_missing_b:
  "ParseMessage exact divide_missing_b =
     Inr (Single (MRequest \<lparr>req_JSONRPC = ''2.0'', req_Method = ''divide'',
                             req_Params = GMap [(''a'', GFloat 5)], req_ID = GFloat 1\<rparr>))"
  using first_byte_divide_missing_b by (simp add: eval_defs decode_divide_missing_b)

lemma parse_add_array_params:
  "ParseMessage exact add_array_params =
     Inr (Single (MRequest \<lparr>req_JSONRPC = ''2.0'', req_Method = ''add'',
                             req_Params = GSlice [GFloat 1, GFloat 2], req_ID = GFloat 1\<rparr>))"
  using first_byte_add_array_params by (simp add: eval_defs decode_add_array_params)

lemma handle_divide_missing_b:
  "handleSingleRequest exact
     \<lparr>req_JSONRPC = ''2.0'', req_Method = ''divide'', req_Params = GMap [(''a'', GFloat 5)],
      req_ID = GFloat 1\<rparr> =
   \<lparr>JSONRPC = ''2.0'', Result = GNil,
    Error = Some \<lparr>Code = - 32000, Message = ''Division by zero'',
                   Data = GString ''Cannot divide 5.000000 by zero''\<rparr>,
    ID = GFloat 1\<rparr>"
  by (simp add: eval_defs format_f_5)

lemma handle_add_array_params:
  \<open>handleSingleRequest exact
     \<lparr>req_JSONRPC = ''2.0'', req_Method = ''add'', req_Params = GSlice [GFloat 1, GFloat 2],
      req_ID = GFloat 1\<rparr> =
   \<lparr>JSONRPC = ''2.0'', Result = GNil,
    Error = Some \<lparr>Code = - 32602, Message = ''Invalid params'',
                   Data = GString ''Expected parameters: {"a": number, "b": number}''\<rparr>,
    ID = GFloat 1\<rparr>\<close>
  by (simp add: eval_defs InvalidParams_def)

lemma finite_floats_exact: "finite_floats exact"
  by (simp add: finite_floats_def exact_def)

section \<open>Decoding the parameters of a calculator method\<close>

lemma map_insert_marshalable:
  "marshalable fl g \<Longrightarrow> marshalable_members fl acc \<Longrightarrow>
   marshalable_members fl (map_insert k g acc)"
  by (induction acc) auto

lemma to_goval_marshalable:
  assumes "finite_floats fl"
  shows "to_goval fl j = Some g \<Longrightarrow> marshalable fl g"
    and "to_goval_list fl js = Some gs \<Longrightarrow> marshalable_list fl gs"
    and "to_goval_members fl ms acc = Some kvs \<Longrightarrow> marshalable_members fl acc \<Longrightarrow>
         marshalable_members fl kvs"
  using assms
proof (induction fl j and fl js and fl ms acc arbitrary: g and gs and kvs
    rule: to_goval_to_goval_list_to_goval_members.induct)
  case (3 fl s)
  then show ?case by (auto simp add: finite_floats_def)
next
  case (8 fl v vs)
  then show ?case by (auto split: option.splits)
next
  case (10 fl kv ms acc)
  then show ?case by (auto split: option.splits intro: map_insert_marshalable)
qed auto

lemma parsed_request_marshalable:
  assumes "finite_floats fl" and "ParseMessage fl data = Inr (Single (MRequest req))"
  shows "marshalable fl (req_Params req)"
  using assms
  by (auto simp add: ParseMessage_def ParseSingleMessage_def ParseSingleMessage_raw_def
      split: if_splits option.splits sum.splits dest: to_goval_marshalable(1))

lemma store_calc_snd:
  "snd (store_calc (p, failed) kv) =
     (failed \<or> ((fieldMatch ''a'' (fst kv) \<or> fieldMatch ''b'' (fst kv))
                 \<and> \<not> is_number_or_null (snd kv)))"
  by (cases "snd kv")
    (auto simp add: store_calc_def store_float_def Let_def is_number_or_null_def)

lemma store_calc_A:
  "\<not> (fieldMatch ''a'' (fst kv) \<and> is_number (snd kv)) \<Longrightarrow>
   A (fst (store_calc (p, failed) kv)) = A p"
  by (cases "snd kv") (auto simp add: store_calc_def store_float_def Let_def is_number_def)

lemma store_calc_B:
  "\<not> (fieldMatch ''b'' (fst kv) \<and> is_number (snd kv)) \<Longrightarrow>
   B (fst (store_calc (p, failed) kv)) = B p"
  by (cases "snd kv") (auto simp add: store_calc_def store_float_def Let_def is_number_def)

lemma store_calc_failed:
  "snd (foldl store_calc (p, failed) kvs) = (failed \<or> \<not> calc_fields_ok kvs)"
proof (induction kvs arbitrary: p failed)
  case Nil
  show ?case by simp
next
  case (Cons kv kvs)
  obtain p' f' where st: "store_calc (p, failed) kv = (p', f')"
    by (cases "store_calc (p, failed) kv")
  with store_calc_snd [of p failed kv]
  have "f' = (failed \<or> ((fieldMatch ''a'' (fst kv) \<or> fieldMatch ''b'' (fst kv))
                 \<and> \<not> is_number_or_null (snd kv)))"
    by simp
  with Cons.IH [of p' f'] st show ?case by auto
qed

lemma store_calc_keeps_A:
  "\<not> sets_field ''a'' kvs \<Longrightarrow> A (fst (foldl store_calc (p, failed) kvs)) = A p"
proof (induction kvs arbitrary: p failed)
  case Nil
  show ?case by simp
next
  case (Cons kv kvs)
  obtain p' f' where st: "store_calc (p, failed) kv = (p', f')"
    by (cases "store_calc (p, failed) kv")
  with store_calc_A [of kv p failed] Cons.prems have "A p' = A p" by simp
  with Cons.IH [of p' f'] Cons.prems st show ?case by simp
qed

lemma store_calc_keeps_B:
  "\<not> sets_field ''b'' kvs \<Longrightarrow> B (fst (foldl store_calc (p, failed) kvs)) = B p"
proof (induction kvs arbitrary: p failed)
  case Nil
  show ?case by simp
next
  case (Cons kv kvs)
  obtain p' f' where st: "store_calc (p, failed) kv = (p', f')"
    by (cases "store_calc (p, failed) kv")
  with store_calc_B [of kv p failed] Cons.prems have "B p' = B p" by simp
  with Cons.IH [of p' f'] Cons.prems st show ?case by simp
qed

lemma unmarshal_CalculatorParams_ok:
  "unmarshal_CalculatorParams fl (GMap kvs) =
     (if calc_fields_ok kvs
      then Some (fst (foldl store_calc (\<lparr>A = f_zero fl, B = f_zero fl\<rparr>, False) kvs))
      else None)"
proof -
  obtain q f where st: "foldl store_calc (\<lparr>A = f_zero fl, B = f_zero fl\<rparr>, False) kvs = (q, f)"
    by (cases "foldl store_calc (\<lparr>A = f_zero fl, B = f_zero fl\<rparr>, False) kvs")
  with store_calc_failed [of "\<lparr>A = f_zero fl, B = f_zero fl\<rparr>" False kvs]
  have "f = (\<not> calc_fields_ok kvs)" by simp
  with st show ?thesis by (simp add: unmarshal_CalculatorParams_def)
qed

lemma unmarshal_CalculatorParams_defaults:
  assumes "calc_fields_ok kvs"
  shows "\<exists>p. unmarshal_CalculatorParams fl (GMap kvs) = Some p
           \<and> (\<not> sets_field ''a'' kvs \<longrightarrow> A p = f_zero fl)
           \<and> (\<not> sets_field ''b'' kvs \<longrightarrow> B p = f_zero fl)"
  using assms by (simp add: unmarshal_CalculatorParams_ok store_calc_keeps_A store_calc_keeps_B)

lemma callCalculatorMethod_decoded:
  assumes "marshalable fl (GMap kvs)" and "unmarshal_CalculatorParams fl (GMap kvs) = Some p"
  shows "callMethod fl ''add'' (GMap kvs) = Inr (GFloat (f_add fl (A p) (B p)))"
    and "callMethod fl ''subtract'' (GMap kvs) = Inr (GFloat (f_sub fl (A p) (B p)))"
    and "callMethod fl ''multiply'' (GMap kvs) = Inr (GFloat (f_mul fl (A p) (B p)))"
    and "callMethod fl ''divide'' (GMap kvs) =
           (if f_eq fl (B p) (f_zero fl)
            then Inl (RPCError \<lparr>Code = - 32000, Message = ''Division by zero'',
                      Data = GString (''Cannot divide '' @ FormatF fl (A p) @ '' by zero'')\<rparr>)
            else Inr (GFloat (f_quo fl (A p) (B p))))"
  using assms
  by (simp_all add: callMethod_def callCalculatorMethod_def MethodByName_def Add_def
      Subtract_def Multiply_def Divide_def)

section \<open>Dispatch of parsed messages\<close>

lemma handleSingleRequest_ID: "ID (handleSingleRequest fl req) = req_ID req"
  by (simp add: handleSingleRequest_def CreateErrorResponse_def CreateSuccessResponse_def
      split: sum.splits go_error.splits)

lemma batch_loop_append:
  "batch_loop fl msgs rs = rs @ map (handleSingleRequest fl) (requests_of msgs)"
proof (induction msgs arbitrary: rs)
  case Nil
  show ?case by simp
next
  case (Cons m msgs)
  show ?case by (cases m) (simp_all add: Cons.IH split: unit.splits)
qed

text \<open>
  C4. A single request is answered with one response, and the id of that response is the
  id of the request, whether the call succeeded or failed.
\<close>

theorem C4_response_id_is_request_id:
  assumes "ParseMessage fl data = Inr (Single (MRequest req))"
  shows "HandleRequest fl data = MarshalResponse (handleSingleRequest fl req)
         \<and> ID (handleSingleRequest fl req) = req_ID req"
  using assms by (simp add: HandleRequest_def handleSingleRequest_ID)

theorem C4_witness:
  "ParseMessage exact add_request =
     Inr (Single (MRequest \<lparr>req_JSONRPC = ''2.0'', req_Method = ''add'',
                             req_Params = GMap [(''a'', GFloat 15), (''b'', GFloat 25)],
                             req_ID = GFloat 1\<rparr>))
   \<and> HandleRequest exact add_request =
       MarshalResponse \<lparr>JSONRPC = ''2.0'', Result = GFloat 40, Error = None, ID = GFloat 1\<rparr>"
  using C4_response_id_is_request_id [OF parse_add_request]
  by (simp add: parse_add_request handle_add_15_25)

text \<open>
  C5. A single notification (a message without id) gets no response, whatever the call of
  its method does: succeed, fail, or find no such method.
\<close>

theorem C5_notification_no_response:
  assumes "ParseMessage fl data = Inr (Single (MNotification notif))"
  shows "HandleRequest fl data = NoResponse"
  using assms by (simp add: HandleRequest_def split: unit.splits)

theorem C5_witness:
  "ParseMessage exact log_notification =
     Inr (Single (MNotification \<lparr>ntf_JSONRPC = ''2.0'', ntf_Method = ''log'',
                                  ntf_Params = GMap [(''message'', GString ''hi'')]\<rparr>))
   \<and> HandleRequest exact log_notification = NoResponse"
  using C5_notification_no_response [OF parse_log_notification]
  by (simp add: parse_log_notification)

text \<open>
  C6. For a batch that parses, the responses are those of its requests, one each and in
  the order of the batch; notifications add nothing; and when there is no response at all
  the reply is the no-response signal, not an empty array.
\<close>

theorem C6_batch_responses:
  assumes "ParseMessage fl data = Inr (Batch msgs)"
  shows "HandleRequest fl data =
           (if requests_of msgs = [] then NoResponse
            else MarshalResponses (map (handleSingleRequest fl) (requests_of msgs)))
         \<and> map ID (map (handleSingleRequest fl) (requests_of msgs)) = map req_ID (requests_of msgs)"
  using assms
  by (simp add: HandleRequest_def handleBatchRequest_def batch_loop_append handleSingleRequest_ID)

theorem C6_witness:
  "ParseMessage exact mixed_batch =
     Inr (Batch [MRequest \<lparr>req_JSONRPC = ''2.0'', req_Method = ''add'',
                            req_Params = GMap [(''a'', GFloat 15), (''b'', GFloat 25)],
                            req_ID = GFloat 1\<rparr>,
                 MNotification \<lparr>ntf_JSONRPC = ''2.0'', ntf_Method = ''log'',
                                 ntf_Params = GMap [(''message'', GString ''hi'')]\<rparr>,
                 MRequest \<lparr>req_JSONRPC = ''2.0'', req_Method = ''multiply'',
                            req_Params = GMap [(''a'', GFloat 3), (''b'', GFloat 4)],
                            req_ID = GFloat 2\<rparr>])
   \<and> HandleRequest exact mixed_batch =
       MarshalResponses
         [\<lparr>JSONRPC = ''2.0'', Result = GFloat 40, Error = None, ID = GFloat 1\<rparr>,
          \<lparr>JSONRPC = ''2.0'', Result = GFloat 12, Error = None, ID = GFloat 2\<rparr>]"
  using C6_batch_responses [OF parse_mixed_batch]
  by (simp add: parse_mixed_batch handle_add_15_25 handle_multiply_3_4)

text \<open>
  C1. The specification says that a message with the key \<open>id\<close> is a request whatever
  the value, null included. The field that receives it is a pointer, and the decoder sets a pointer to
  nil on null, as if the key were absent: the message is parsed as a notification and
  gets no response.
\<close>

theorem C1_null_id_is_parsed_as_notification:
  "json_decode null_id_request =
     Some (JObj [(''jsonrpc'', JStr ''2.0''), (''method'', JStr ''add''),
                 (''params'', JObj [(''a'', JNum ''1''), (''b'', JNum ''2'')]),
                 (''id'', JNull)])
   \<and> ParseMessage exact null_id_request =
       Inr (Single (MNotification \<lparr>ntf_JSONRPC = ''2.0'', ntf_Method = ''add'',
                                    ntf_Params = GMap [(''a'', GFloat 1), (''b'', GFloat 2)]\<rparr>))
   \<and> HandleRequest exact null_id_request = NoResponse"
  using head_null_id_request
  by (simp add: eval_defs decode_null_id_request split: unit.splits)

text \<open>
  C7. The specification says that a response always carries a result or an error. The method
  \<open>log\<close> returns a nil result and a nil error; called in a request, it is answered
  with a response that has neither.
\<close>

theorem C7_log_request_has_neither_result_nor_error:
  "HandleRequest exact log_request =
     MarshalResponse \<lparr>JSONRPC = ''2.0'', Result = GNil, Error = None, ID = GFloat 1\<rparr>"
  using head_log_request by (simp add: eval_defs decode_log_request)

text \<open>
  C8. The error that a method returns as a \<^verbatim>\<open>*JSONRPCError\<close> is the error of the
  response, unchanged, and the id of the response is the id of the request. Dividing 5 by
  0 with id 2 is answered with the error -32000 and id 2.
\<close>

theorem C8_handler_error_is_carried_verbatim:
  "(callMethod fl (req_Method req) (req_Params req) = Inl (RPCError e) \<longrightarrow>
      handleSingleRequest fl req =
        \<lparr>JSONRPC = ''2.0'', Result = GNil, Error = Some e, ID = req_ID req\<rparr>)
   \<and> HandleRequest exact divide_by_zero_request =
       MarshalResponse
         \<lparr>JSONRPC = ''2.0'', Result = GNil,
          Error = Some \<lparr>Code = - 32000, Message = ''Division by zero'',
                         Data = GString ''Cannot divide 5.000000 by zero''\<rparr>,
          ID = GFloat 2\<rparr>"
proof
  show "callMethod fl (req_Method req) (req_Params req) = Inl (RPCError e) \<longrightarrow>
      handleSingleRequest fl req =
        \<lparr>JSONRPC = ''2.0'', Result = GNil, Error = Some e, ID = req_ID req\<rparr>"
    by (simp add: handleSingleRequest_def CreateErrorResponse_def JSONRPCVersion_def)
  show "HandleRequest exact divide_by_zero_request =
       MarshalResponse
         \<lparr>JSONRPC = ''2.0'', Result = GNil,
          Error = Some \<lparr>Code = - 32000, Message = ''Division by zero'',
                         Data = GString ''Cannot divide 5.000000 by zero''\<rparr>,
          ID = GFloat 2\<rparr>"
    by (simp add: HandleRequest_def parse_divide_by_zero_request handleSingleRequest_def
        call_divide_5_0 CreateErrorResponse_def JSONRPCVersion_def)
qed

theorem C8_witness:
  "callMethod exact ''divide'' (GMap [(''a'', GFloat 5), (''b'', GFloat 0)]) =
     Inl (RPCError \<lparr>Code = - 32000, Message = ''Division by zero'',
                    Data = GString ''Cannot divide 5.000000 by zero''\<rparr>)
   \<and> handleSingleRequest exact
        \<lparr>req_JSONRPC = ''2.0'', req_Method = ''divide'',
         req_Params = GMap [(''a'', GFloat 5), (''b'', GFloat 0)], req_ID = GFloat 2\<rparr> =
       \<lparr>JSONRPC = ''2.0'', Result = GNil,
        Error = Some \<lparr>Code = - 32000, Message = ''Division by zero'',
                       Data = GString ''Cannot divide 5.000000 by zero''\<rparr>,
        ID = GFloat 2\<rparr>"
  using C8_handler_error_is_carried_verbatim
    [of exact "\<lparr>req_JSONRPC = ''2.0'', req_Method = ''divide'',
         req_Params = GMap [(''a'', GFloat 5), (''b'', GFloat 0)], req_ID = GFloat 2\<rparr>"
        "\<lparr>Code = - 32000, Message = ''Division by zero'',
                    Data = GString ''Cannot divide 5.000000 by zero''\<rparr>"]
  by (simp add: call_divide_5_0)

text \<open>
  C9. The specification says that leading whitespace before the bracket still selects the
  batch path. The test is on the first byte: with a space in front, a valid batch goes down the
  single-message path and is refused with a parse error, while the same bytes without the
  space are parsed as a batch.
\<close>

theorem C9_batch_after_whitespace_is_a_parse_error:
  "json_decode (CHR '' '' # batch_of_one) =
     Some (JArr [JObj [(''jsonrpc'', JStr ''2.0''), (''method'', JStr ''add''),
                       (''params'', JObj [(''a'', JNum ''1''), (''b'', JNum ''2'')]),
                       (''id'', JNum ''1'')]])
   \<and> ParseMessage exact (CHR '' '' # batch_of_one) =
       Inl \<lparr>Code = - 32700, Message = ''Parse error'',
            Data = GString (exact_errors (UnmarshalTypeError ''array'' ''struct''))\<rparr>
   \<and> ParseMessage exact batch_of_one =
       Inr (Batch [MRequest \<lparr>req_JSONRPC = ''2.0'', req_Method = ''add'',
                              req_Params = GMap [(''a'', GFloat 1), (''b'', GFloat 2)],
                              req_ID = GFloat 1\<rparr>])"
  using head_batch_of_one
  by (simp add: eval_defs decode_batch_of_one decode_spaced_batch_of_one json_kind_def
      ParseError_def)

text \<open>
  C2 (an element that fails to parse fails alone) does not hold: the first element of this batch is a well-formed request, the
  second has the wrong version, and the parse of the batch is the error of the second
  element alone. Nothing is kept of the first element, and the reply is a single error
  response.
\<close>

theorem C2_counterexample:
  "json_decode bad_batch = Some (JArr [elem_add_1_2, elem_version_1])
   \<and> ParseSingleMessage_raw exact elem_add_1_2 =
       Inr (MRequest \<lparr>req_JSONRPC = ''2.0'', req_Method = ''add'',
                       req_Params = GMap [(''a'', GFloat 1), (''b'', GFloat 2)],
                       req_ID = GFloat 1\<rparr>)
   \<and> ParseMessage exact bad_batch = Inl (invalid_request jsonrpc_must_be_2_0)
   \<and> HandleRequest exact bad_batch =
       MarshalResponse
         \<lparr>JSONRPC = ''2.0'', Result = GNil, Error = Some (invalid_request jsonrpc_must_be_2_0),
          ID = GNil\<rparr>"
  using head_bad_batch
  by (simp add: decode_bad_batch parse_elem_add_1_2 parse_elem_version_1 ParseMessage_def
      HandleRequest_def unmarshal_batch_def CreateErrorResponse_def JSONRPCVersion_def)

text \<open>
  C2, amended. The elements of a batch are parsed in order, each as a single message. If
  all of them parse, the result is the batch of their messages, in order. If one fails,
  the parse of the whole batch fails with the error of the first such element, and the
  reply is one error response with a null id.
\<close>

theorem C2_batch_parse_stops_at_first_error:
  assumes "0 < length data \<and> data ! 0 = CHR ''[''"
    and "json_decode data = Some (JArr raws)"
  shows "(map (ParseSingleMessage_raw fl) raws = map Inr msgs \<longrightarrow>
            ParseMessage fl data = Inr (Batch msgs))
         \<and> (raws = before @ bad # rest
              \<and> map (ParseSingleMessage_raw fl) before = map Inr msgs'
              \<and> ParseSingleMessage_raw fl bad = Inl err \<longrightarrow>
            ParseMessage fl data = Inl err
            \<and> HandleRequest fl data = MarshalResponse (CreateErrorResponse err GNil))"
  using assms
  by (auto simp add: ParseMessage_def HandleRequest_def unmarshal_batch_def
      parse_elements_all [where acc = "[]", simplified] parse_elements_first_failure)

theorem C2_witness:
  "ParseMessage exact bad_batch = Inl (invalid_request jsonrpc_must_be_2_0)
   \<and> HandleRequest exact bad_batch =
       MarshalResponse (CreateErrorResponse (invalid_request jsonrpc_must_be_2_0) GNil)
   \<and> ParseMessage exact batch_of_one =
       Inr (Batch [MRequest \<lparr>req_JSONRPC = ''2.0'', req_Method = ''add'',
                              req_Params = GMap [(''a'', GFloat 1), (''b'', GFloat 2)],
                              req_ID = GFloat 1\<rparr>])"
proof -
  have one: "json_decode batch_of_one = Some (JArr [elem_add_1_2])"
    by (simp add: decode_batch_of_one elem_add_1_2_def)
  have split: "[elem_add_1_2, elem_version_1] = [elem_add_1_2] @ elem_version_1 # []"
    by simp
  show ?thesis
    using
      C2_batch_parse_stops_at_first_error [OF head_bad_batch decode_bad_batch,
        of exact "[]" "[elem_add_1_2]" elem_version_1 "[]"
           "[MRequest \<lparr>req_JSONRPC = ''2.0'', req_Method = ''add'',
                              req_Params = GMap [(''a'', GFloat 1), (''b'', GFloat 2)],
                              req_ID = GFloat 1\<rparr>]"
           "invalid_request jsonrpc_must_be_2_0"]
      C2_batch_parse_stops_at_first_error [OF head_batch_of_one one,
        of exact "[MRequest \<lparr>req_JSONRPC = ''2.0'', req_Method = ''add'',
                              req_Params = GMap [(''a'', GFloat 1), (''b'', GFloat 2)],
                              req_ID = GFloat 1\<rparr>]" "[]" elem_version_1 "[]" "[]"
           "invalid_request jsonrpc_must_be_2_0"]
    by (simp add: parse_elem_add_1_2 parse_elem_version_1)
qed

text \<open>
  C3 (an invalid request that carries an id is answered with that id) does not hold: this input is valid JSON, has the wrong version and the id 3, and
  the error response has a null id.
\<close>

theorem C3_counterexample:
  "json_decode version_1_request =
     Some (JObj [(''jsonrpc'', JStr ''1.0''), (''method'', JStr ''add''), (''id'', JNum ''3'')])
   \<and> to_goval exact (JNum ''3'') = Some (GFloat 3)
   \<and> HandleRequest exact version_1_request =
       MarshalResponse
         \<lparr>JSONRPC = ''2.0'', Result = GNil,
          Error = Some \<lparr>Code = - 32600, Message = ''Invalid Request'',
                         Data = GString jsonrpc_must_be_2_0\<rparr>,
          ID = GNil\<rparr>"
  using head_version_1_request
  by (simp add: eval_defs decode_version_1_request jsonrpc_must_be_2_0_def InvalidRequest_def)

text \<open>
  C3, amended. Whenever the parser fails, for malformed JSON or for a broken field rule,
  the error response carries the parser's error and a null id; in particular a single
  message whose version is not 2.0 is answered so, whatever its id.
\<close>

theorem C3_parser_error_gets_null_id:
  "(ParseMessage fl data = Inl err \<longrightarrow>
      HandleRequest fl data =
        MarshalResponse \<lparr>JSONRPC = ''2.0'', Result = GNil, Error = Some err, ID = GNil\<rparr>)
   \<and> (\<not> (0 < length data \<and> data ! 0 = CHR ''['') \<and> json_decode data = Some v
        \<and> unmarshal_raw v = Inr raw \<and> r_JSONRPC raw \<noteq> ''2.0'' \<longrightarrow>
      ParseMessage fl data = Inl (invalid_request jsonrpc_must_be_2_0))"
  by (simp add: HandleRequest_def CreateErrorResponse_def JSONRPCVersion_def ParseMessage_def
      ParseSingleMessage_def ParseSingleMessage_raw_def jsonrpc_must_be_2_0_def)

theorem C3_witness:
  "unmarshal_raw elem_version_1 =
     Inr \<lparr>r_JSONRPC = ''1.0'', r_Method = ''add'', r_Params = None, r_ID = Some (JNum ''3'')\<rparr>
   \<and> ParseMessage exact version_1_request = Inl (invalid_request jsonrpc_must_be_2_0)
   \<and> HandleRequest exact version_1_request =
       MarshalResponse
         \<lparr>JSONRPC = ''2.0'', Result = GNil, Error = Some (invalid_request jsonrpc_must_be_2_0),
          ID = GNil\<rparr>"
  using
    C3_parser_error_gets_null_id [of exact version_1_request "invalid_request jsonrpc_must_be_2_0"
      elem_version_1
      "\<lparr>r_JSONRPC = ''1.0'', r_Method = ''add'', r_Params = None, r_ID = Some (JNum ''3'')\<rparr>"]
    first_byte_version_1_request
  by (simp add: decode_version_1_request' unmarshal_elem_version_1)

text \<open>
  C10 (a missing field gives a normal result) does not hold for \<open>divide\<close>: with the key \<open>b\<close> missing the divisor is 0, and
  the answer is the error -32000, not a result.
\<close>

theorem C10_counterexample:
  "HandleRequest exact divide_missing_b =
     MarshalResponse
       \<lparr>JSONRPC = ''2.0'', Result = GNil,
        Error = Some \<lparr>Code = - 32000, Message = ''Division by zero'',
                       Data = GString ''Cannot divide 5.000000 by zero''\<rparr>,
        ID = GFloat 1\<rparr>"
  by (simp add: HandleRequest_def parse_divide_missing_b handle_divide_missing_b)

text \<open>
  C10, amended. For a request of add, subtract, multiply or divide whose params is an
  object in which every value under a key for \<open>a\<close> or \<open>b\<close> is a number or null, decoding
  succeeds, and a field that no member sets is 0. The method then runs on these values:
  add, subtract and multiply answer with a result; divide answers with a result unless the
  divisor is 0, as it is when \<open>b\<close> is missing, and then with the error -32000. The error
  -32602 is returned only when params is absent or null, is not an object, or has a value
  for \<open>a\<close> or \<open>b\<close> that is neither a number nor null.
\<close>

theorem C10_missing_fields_default_to_zero:
  assumes "finite_floats fl"
    and "ParseMessage fl data = Inr (Single (MRequest req))"
  shows "(req_Params req = GMap kvs \<and> calc_fields_ok kvs \<longrightarrow>
           (\<exists>p. unmarshal_CalculatorParams fl (req_Params req) = Some p
              \<and> (\<not> sets_field ''a'' kvs \<longrightarrow> A p = f_zero fl)
              \<and> (\<not> sets_field ''b'' kvs \<longrightarrow> B p = f_zero fl)
              \<and> (req_Method req = ''add'' \<longrightarrow>
                   handleSingleRequest fl req =
                     CreateSuccessResponse (GFloat (f_add fl (A p) (B p))) (req_ID req))
              \<and> (req_Method req = ''subtract'' \<longrightarrow>
                   handleSingleRequest fl req =
                     CreateSuccessResponse (GFloat (f_sub fl (A p) (B p))) (req_ID req))
              \<and> (req_Method req = ''multiply'' \<longrightarrow>
                   handleSingleRequest fl req =
                     CreateSuccessResponse (GFloat (f_mul fl (A p) (B p))) (req_ID req))
              \<and> (req_Method req = ''divide'' \<longrightarrow>
                   handleSingleRequest fl req =
                     (if f_eq fl (B p) (f_zero fl)
                      then CreateErrorResponse
                             \<lparr>Code = - 32000, Message = ''Division by zero'',
                              Data = GString (''Cannot divide '' @ FormatF fl (A p) @ '' by zero'')\<rparr>
                             (req_ID req)
                      else CreateSuccessResponse (GFloat (f_quo fl (A p) (B p))) (req_ID req)))))
         \<and> (req_Method req \<in> {''add'', ''subtract'', ''multiply'', ''divide''}
              \<and> Error (handleSingleRequest fl req) = Some e \<and> Code e = InvalidParams \<longrightarrow>
            req_Params req = GNil
            \<or> (\<forall>kvs'. req_Params req \<noteq> GMap kvs')
            \<or> (\<exists>kvs'. req_Params req = GMap kvs' \<and> \<not> calc_fields_ok kvs'))"
proof (intro conjI impI)
  have m: "marshalable fl (req_Params req)"
    using assms by (rule parsed_request_marshalable)
  {
    assume h: "req_Params req = GMap kvs \<and> calc_fields_ok kvs"
    then obtain p where p: "unmarshal_CalculatorParams fl (GMap kvs) = Some p"
      and a: "\<not> sets_field ''a'' kvs \<longrightarrow> A p = f_zero fl"
      and b: "\<not> sets_field ''b'' kvs \<longrightarrow> B p = f_zero fl"
      using unmarshal_CalculatorParams_defaults [of kvs fl] by auto
    from m h have mk: "marshalable fl (GMap kvs)" by simp
    show "\<exists>p. unmarshal_CalculatorParams fl (req_Params req) = Some p
              \<and> (\<not> sets_field ''a'' kvs \<longrightarrow> A p = f_zero fl)
              \<and> (\<not> sets_field ''b'' kvs \<longrightarrow> B p = f_zero fl)
              \<and> (req_Method req = ''add'' \<longrightarrow>
                   handleSingleRequest fl req =
                     CreateSuccessResponse (GFloat (f_add fl (A p) (B p))) (req_ID req))
              \<and> (req_Method req = ''subtract'' \<longrightarrow>
                   handleSingleRequest fl req =
                     CreateSuccessResponse (GFloat (f_sub fl (A p) (B p))) (req_ID req))
              \<and> (req_Method req = ''multiply'' \<longrightarrow>
                   handleSingleRequest fl req =
                     CreateSuccessResponse (GFloat (f_mul fl (A p) (B p))) (req_ID req))
              \<and> (req_Method req = ''divide'' \<longrightarrow>
                   handleSingleRequest fl req =
                     (if f_eq fl (B p) (f_zero fl)
                      then CreateErrorResponse
                             \<lparr>Code = - 32000, Message = ''Division by zero'',
                              Data = GString (''Cannot divide '' @ FormatF fl (A p) @ '' by zero'')\<rparr>
                             (req_ID req)
                      else CreateSuccessResponse (GFloat (f_quo fl (A p) (B p))) (req_ID req)))"
      using h p a b callCalculatorMethod_decoded [OF mk p]
      by (intro exI [of _ p]) (simp add: handleSingleRequest_def)
  }
  {
    assume h: "req_Method req \<in> {''add'', ''subtract'', ''multiply'', ''divide''}
              \<and> Error (handleSingleRequest fl req) = Some e \<and> Code e = InvalidParams"
    show "req_Params req = GNil
            \<or> (\<forall>kvs'. req_Params req \<noteq> GMap kvs')
            \<or> (\<exists>kvs'. req_Params req = GMap kvs' \<and> \<not> calc_fields_ok kvs')"
    proof (rule ccontr)
      assume "\<not> ?thesis"
      then obtain kvs' where k: "req_Params req = GMap kvs'" and ok: "calc_fields_ok kvs'"
        by auto
      obtain p where p: "unmarshal_CalculatorParams fl (GMap kvs') = Some p"
        using unmarshal_CalculatorParams_defaults [OF ok, of fl] by auto
      from m k have mk: "marshalable fl (GMap kvs')" by simp
      from h k callCalculatorMethod_decoded [OF mk p] show False
        by (auto simp add: handleSingleRequest_def CreateErrorResponse_def
            CreateSuccessResponse_def InvalidParams_def split: if_splits)
    qed
  }
qed

theorem C10_witness:
  \<open>finite_floats exact
   \<and> ParseMessage exact divide_missing_b =
       Inr (Single (MRequest \<lparr>req_JSONRPC = ''2.0'', req_Method = ''divide'',
                               req_Params = GMap [(''a'', GFloat 5)], req_ID = GFloat 1\<rparr>))
   \<and> calc_fields_ok [(''a'', GFloat (5::rat))]
   \<and> \<not> sets_field ''b'' [(''a'', GFloat (5::rat))]
   \<and> unmarshal_CalculatorParams exact (GMap [(''a'', GFloat 5)]) = Some \<lparr>A = 5, B = 0\<rparr>
   \<and> handleSingleRequest exact
        \<lparr>req_JSONRPC = ''2.0'', req_Method = ''divide'', req_Params = GMap [(''a'', GFloat 5)],
         req_ID = GFloat 1\<rparr> =
       CreateErrorResponse
         \<lparr>Code = - 32000, Message = ''Division by zero'',
          Data = GString ''Cannot divide 5.000000 by zero''\<rparr> (GFloat 1)
   \<and> ParseMessage exact add_array_params =
       Inr (Single (MRequest \<lparr>req_JSONRPC = ''2.0'', req_Method = ''add'',
                               req_Params = GSlice [GFloat 1, GFloat 2], req_ID = GFloat 1\<rparr>))
   \<and> Error (handleSingleRequest exact
               \<lparr>req_JSONRPC = ''2.0'', req_Method = ''add'',
                req_Params = GSlice [GFloat 1, GFloat 2], req_ID = GFloat 1\<rparr>) =
       Some \<lparr>Code = InvalidParams, Message = ''Invalid params'',
             Data = GString ''Expected parameters: {"a": number, "b": number}''\<rparr>
   \<and> (\<forall>kvs'. GSlice [GFloat 1, GFloat (2::rat)] \<noteq> GMap kvs')\<close>
proof -
  note divide_case =
    C10_missing_fields_default_to_zero [OF finite_floats_exact parse_divide_missing_b,
      of "[(''a'', GFloat 5)]"]
  note array_case =
    C10_missing_fields_default_to_zero [OF finite_floats_exact parse_add_array_params,
      of "[]" "\<lparr>Code = InvalidParams, Message = ''Invalid params'',
             Data = GString (''Expected parameters: {'' @ [DQ] @ ''a'' @ [DQ] @ '': number, ''
                              @ [DQ] @ ''b'' @ [DQ] @ '': number}'')\<rparr>"]
  have nb: "\<not> fieldMatch ''b'' ''a''"
    by code_simp
  have ok: "calc_fields_ok [(''a'', GFloat (5::rat))]"
    by (simp add: fieldMatch_table is_number_or_null_def)
  have unset: "\<not> sets_field ''b'' [(''a'', GFloat (5::rat))]"
    by (simp add: nb)
  have um: "unmarshal_CalculatorParams exact (GMap [(''a'', GFloat 5)]) = Some \<lparr>A = 5, B = 0\<rparr>"
    by (simp add: unmarshal_CalculatorParams_def store_calc_def store_float_def
        fieldMatch_table exact_def Let_def)
  have zero: "f_eq exact 0 (f_zero exact)" and fmt: "FormatF exact 5 = ''5.000000''"
    by (simp_all add: exact_def format_f_5)
  from divide_case ok um zero fmt
  have h1: "handleSingleRequest exact
        \<lparr>req_JSONRPC = ''2.0'', req_Method = ''divide'', req_Params = GMap [(''a'', GFloat 5)],
         req_ID = GFloat 1\<rparr> =
       CreateErrorResponse
         \<lparr>Code = - 32000, Message = ''Division by zero'',
          Data = GString ''Cannot divide 5.000000 by zero''\<rparr> (GFloat 1)"
    by simp
  have h2: "Error (handleSingleRequest exact
               \<lparr>req_JSONRPC = ''2.0'', req_Method = ''add'',
                req_Params = GSlice [GFloat 1, GFloat 2], req_ID = GFloat 1\<rparr>) =
       Some \<lparr>Code = InvalidParams, Message = ''Invalid params'',
             Data = GString (''Expected parameters: {'' @ [DQ] @ ''a'' @ [DQ] @ '': number, ''
                              @ [DQ] @ ''b'' @ [DQ] @ '': number}'')\<rparr>"
    by (simp add: handle_add_array_params InvalidParams_def DQ_def)
  from array_case h2 have h3: "\<forall>kvs'. GSlice [GFloat 1, GFloat (2::rat)] \<noteq> GMap kvs'"
    by simp
  from h2 have h2': \<open>Error (handleSingleRequest exact
               \<lparr>req_JSONRPC = ''2.0'', req_Method = ''add'',
                req_Params = GSlice [GFloat 1, GFloat 2], req_ID = GFloat 1\<rparr>) =
       Some \<lparr>Code = InvalidParams, Message = ''Invalid params'',
             Data = GString ''Expected parameters: {"a": number, "b": number}''\<rparr>\<close>
    by (simp add: DQ_def)
  show ?thesis
    using finite_floats_exact parse_divide_missing_b parse_add_array_params ok unset um h1 h2' h3
    by blast
qed

end
